theory Spec2Isabelle
  imports Complex_Main "HOL-Library.AList"
begin

section \<open>Python conventions used by the embedding\<close>

text \<open>
  A Python \<open>dict\<close> is an association list with distinct keys in insertion order:
  \<open>d[k] = v\<close> is \<open>AList.update k v d\<close> (an existing key keeps its place, a new key goes
  to the end), \<open>d.pop(k, None)\<close> is \<open>AList.delete k d\<close>, \<open>d.get(k)\<close> is \<open>map_of d k\<close>.
  A JSON message is a record of optional fields; \<open>None\<close> says that the key is absent,
  and a field that is present carries a value of the type the exchange protocol gives it.
  An identifier of the source that starts with an underscore loses the underscore.
\<close>

definition py_get :: "'a option \<Rightarrow> 'a \<Rightarrow> 'a" where
  \<comment> \<open>\<open>msg.get(key, default)\<close>, applied to the optional field of the key\<close>
  "py_get field dflt = (case field of None \<Rightarrow> dflt | Some v \<Rightarrow> v)"

definition py_or :: "int \<Rightarrow> int \<Rightarrow> int" where
  \<comment> \<open>\<open>x or d\<close> on integers: zero is falsy\<close>
  "py_or x d = (if x = 0 then d else x)"

definition is_falsy :: "string option \<Rightarrow> bool" where
  \<comment> \<open>\<open>not ticker\<close> for a value that is \<open>None\<close> or a string\<close>
  "is_falsy v = (case v of None \<Rightarrow> True | Some t \<Rightarrow> t = [])"

fun py_max_default :: "int list \<Rightarrow> int \<Rightarrow> int" where
  \<comment> \<open>\<open>max(keys, default=d)\<close>\<close>
  "py_max_default [] d = d"
| "py_max_default (k # ks) d = fold max ks k"

section \<open>Market cache (market_cache.py)\<close>

record orderbook_dict =
  bk_yes :: "(int \<times> int) list"
  bk_no :: "(int \<times> int) list"
  bk_seq :: "int option"

record trade_dict =
  tr_yes_price :: int
  tr_count :: int
  tr_taker_side :: string
  tr_ts :: int

record MarketState =
  market_ticker :: string
  event_ticker :: string
  series_ticker :: string
  market_status :: string
  yes_bid :: int
  no_bid :: int
  yes_ask :: int
  no_ask :: int
  last_price :: int
  volume :: int
  open_interest :: int
  spread :: int
  midpoint :: rat
  implied_probability :: rat
  last_updated_timestamp :: int
  orderbook :: "orderbook_dict option"
  recent_trades :: "trade_dict list"

text \<open>
  \<open>midpoint\<close> and \<open>implied_probability\<close> are Python floats. The quotients
  \<open>(yes_bid + yes_ask) / 2.0\<close> and \<open>yes_bid / 100.0\<close> are modelled by the exact rational;
  the first one is exact in binary floating point as long as the sum is below \<open>2^53\<close>
  in absolute value.
\<close>

definition compute_derived :: "int \<Rightarrow> int \<Rightarrow> int \<times> int \<times> int \<times> rat \<times> rat" where
  "compute_derived yb nb =
     (let ya = 100 - nb;
          na = 100 - yb;
          sp = ya - yb;
          mid = of_int (yb + ya) / 2;
          implied = of_int yb / 100
      in (ya, na, sp, mid, implied))"

record MarketCache =
  cache :: "(string \<times> MarketState) list"
  update_notification :: bool

definition init_cache :: MarketCache where
  "init_cache = \<lparr>cache = [], update_notification = False\<rparr>"

definition notify :: "MarketCache \<Rightarrow> MarketCache" where
  "notify s = s\<lparr>update_notification := True\<rparr>"

record ticker_msg =
  tm_market_ticker :: "string option"
  tm_event_ticker :: "string option"
  tm_series_ticker :: "string option"
  tm_status :: "string option"
  tm_yes_bid :: "int option"
  tm_no_bid :: "int option"
  tm_yes_ask :: "int option"
  tm_last_price :: "int option"
  tm_volume :: "int option"
  tm_open_interest :: "int option"
  tm_ts :: "int option"

definition upsert_from_ticker :: "MarketCache \<Rightarrow> ticker_msg \<Rightarrow> MarketCache" where
  "upsert_from_ticker s msg =
     (if is_falsy (tm_market_ticker msg) then s
      else
        let ticker = py_get (tm_market_ticker msg) [];
            yb = py_get (tm_yes_bid msg) 0;
            nb = py_get (tm_no_bid msg) 0;
            (ya, na) = (case tm_yes_ask msg of
                          Some a \<Rightarrow> (a, 100 - yb)
                        | None \<Rightarrow> (case compute_derived yb nb of (a, b, _, _, _) \<Rightarrow> (a, b)));
            (sp, mid, implied_prob) = (case compute_derived yb nb of (_, _, c, d, e) \<Rightarrow> (c, d, e));
            entry = (case map_of (cache s) ticker of
                Some existing \<Rightarrow>
                  existing\<lparr>yes_bid := yb, no_bid := nb, yes_ask := ya, no_ask := na,
                    last_price := py_get (tm_last_price msg) (last_price existing),
                    volume := py_get (tm_volume msg) (volume existing),
                    open_interest := py_get (tm_open_interest msg) (open_interest existing),
                    spread := sp, midpoint := mid, implied_probability := implied_prob,
                    last_updated_timestamp :=
                      py_get (tm_ts msg) (last_updated_timestamp existing)\<rparr>
              | None \<Rightarrow>
                  \<lparr>market_ticker = ticker,
                   event_ticker = py_get (tm_event_ticker msg) [],
                   series_ticker = py_get (tm_series_ticker msg) [],
                   market_status = py_get (tm_status msg) ''open'',
                   yes_bid = yb, no_bid = nb, yes_ask = ya, no_ask = na,
                   last_price = py_get (tm_last_price msg) 0,
                   volume = py_get (tm_volume msg) 0,
                   open_interest = py_get (tm_open_interest msg) 0,
                   spread = sp, midpoint = mid, implied_probability = implied_prob,
                   last_updated_timestamp = py_get (tm_ts msg) 0,
                   orderbook = None, recent_trades = []\<rparr>)
        in notify (s\<lparr>cache := AList.update ticker entry (cache s)\<rparr>))"

record discovery_data =
  md_ticker :: "string option"
  md_event_ticker :: "string option"
  md_series_ticker :: "string option"
  md_status :: "string option"
  md_yes_bid :: "int option"
  md_no_bid :: "int option"
  md_last_price :: "int option"
  md_volume :: "int option"
  md_open_interest :: "int option"

definition upsert_from_discovery :: "MarketCache \<Rightarrow> discovery_data \<Rightarrow> MarketCache" where
  "upsert_from_discovery s market_data =
     (if is_falsy (md_ticker market_data) then s
      else
        let ticker = py_get (md_ticker market_data) [];
            yb = py_or (py_get (md_yes_bid market_data) 0) 0;
            nb = py_or (py_get (md_no_bid market_data) 0) 0;
            (ya, na, sp, mid, implied_prob) = compute_derived yb nb;
            entry = (case map_of (cache s) ticker of
                Some existing \<Rightarrow>
                  existing\<lparr>
                    event_ticker := py_get (md_event_ticker market_data) (event_ticker existing),
                    series_ticker := py_get (md_series_ticker market_data) (series_ticker existing),
                    market_status := py_get (md_status market_data) (market_status existing)\<rparr>
              | None \<Rightarrow>
                  \<lparr>market_ticker = ticker,
                   event_ticker = py_get (md_event_ticker market_data) [],
                   series_ticker = py_get (md_series_ticker market_data) [],
                   market_status = py_get (md_status market_data) ''open'',
                   yes_bid = yb, no_bid = nb, yes_ask = ya, no_ask = na,
                   last_price = py_or (py_get (md_last_price market_data) 0) 0,
                   volume = py_or (py_get (md_volume market_data) 0) 0,
                   open_interest = py_or (py_get (md_open_interest market_data) 0) 0,
                   spread = sp, midpoint = mid, implied_probability = implied_prob,
                   last_updated_timestamp = 0,
                   orderbook = None, recent_trades = []\<rparr>)
        in s\<lparr>cache := AList.update ticker entry (cache s)\<rparr>)"

record orderbook_msg =
  om_market_ticker :: "string option"
  om_seq :: "int option"
  om_yes :: "(int \<times> int) list option"
  om_no :: "(int \<times> int) list option"

definition snapshot_side :: "(int \<times> int) list \<Rightarrow> (int \<times> int) list" where
  \<comment> \<open>the comprehension \<open>{int(p): int(q) for p, q in levels}\<close>\<close>
  "snapshot_side levels = fold (\<lambda>(p, q) d. AList.update p q d) levels []"

definition patch_side :: "(int \<times> int) list \<Rightarrow> (int \<times> int) list \<Rightarrow> (int \<times> int) list" where
  \<comment> \<open>the loop \<open>for price, qty in levels\<close> of the incremental branch\<close>
  "patch_side levels d =
     fold (\<lambda>(price, qty) d. if qty = 0 then AList.delete price d else AList.update price qty d)
       levels d"

definition rederive_from_book :: "MarketState \<Rightarrow> MarketState" where
  \<comment> \<open>the block under \<open>if state.orderbook:\<close>; a dict with the three keys is truthy\<close>
  "rederive_from_book state =
     (case orderbook state of
        None \<Rightarrow> state
      | Some ob \<Rightarrow>
          let best_yes_bid = py_max_default (map fst (bk_yes ob)) 0;
              best_no_bid = py_max_default (map fst (bk_no ob)) 0;
              st1 = state\<lparr>yes_bid := best_yes_bid, no_bid := best_no_bid,
                      yes_ask := 100 - best_no_bid, no_ask := 100 - best_yes_bid\<rparr>;
              st2 = st1\<lparr>spread := yes_ask st1 - yes_bid st1\<rparr>;
              st3 = st2\<lparr>midpoint := of_int (yes_bid st2 + yes_ask st2) / 2\<rparr>
          in st3\<lparr>implied_probability := of_int (yes_bid st3) / 100\<rparr>)"

definition apply_orderbook_delta :: "MarketCache \<Rightarrow> orderbook_msg \<Rightarrow> MarketCache" where
  "apply_orderbook_delta s msg =
     (if is_falsy (om_market_ticker msg) then s
      else
        let ticker = py_get (om_market_ticker msg) [];
            seq = om_seq msg;
            yes_levels = py_get (om_yes msg) [];
            no_levels = py_get (om_no msg) []
        in case map_of (cache s) ticker of
             None \<Rightarrow> s
           | Some state \<Rightarrow>
               let is_snapshot = (seq = Some 1 \<or> orderbook state = None);
                   snapshot = \<lparr>bk_yes = snapshot_side yes_levels,
                               bk_no = snapshot_side no_levels, bk_seq = seq\<rparr>;
                   book = (if is_snapshot then snapshot
                           else case orderbook state of
                                  None \<Rightarrow> snapshot
                                | Some ob \<Rightarrow> \<lparr>bk_yes = patch_side yes_levels (bk_yes ob),
                                              bk_no = patch_side no_levels (bk_no ob),
                                              bk_seq = seq\<rparr>);
                   state' = rederive_from_book (state\<lparr>orderbook := Some book\<rparr>)
               in notify (s\<lparr>cache := AList.update ticker state' (cache s)\<rparr>))"

record trade_msg =
  tr_market_ticker :: "string option"
  tr_msg_yes_price :: "int option"
  tr_msg_count :: "int option"
  tr_msg_taker_side :: "string option"
  tr_msg_ts :: "int option"

definition deque_append :: "nat \<Rightarrow> 'a list \<Rightarrow> 'a \<Rightarrow> 'a list" where
  \<comment> \<open>\<open>append\<close> on a \<open>deque(maxlen=n)\<close>: the oldest element leaves when it is full\<close>
  "deque_append n dq x = (let dq' = dq @ [x] in drop (length dq' - n) dq')"

definition append_trade :: "MarketCache \<Rightarrow> trade_msg \<Rightarrow> MarketCache" where
  "append_trade s msg =
     (if is_falsy (tr_market_ticker msg) then s
      else
        let ticker = py_get (tr_market_ticker msg) [];
            trade = \<lparr>tr_yes_price = py_get (tr_msg_yes_price msg) 0,
                     tr_count = py_get (tr_msg_count msg) 0,
                     tr_taker_side = py_get (tr_msg_taker_side msg) [],
                     tr_ts = py_get (tr_msg_ts msg) 0\<rparr>
        in notify (case map_of (cache s) ticker of
                     None \<Rightarrow> s
                   | Some state \<Rightarrow>
                       s\<lparr>cache := AList.update ticker
                           (state\<lparr>recent_trades := deque_append 100 (recent_trades state) trade\<rparr>)
                           (cache s)\<rparr>))"

definition update_status :: "MarketCache \<Rightarrow> string \<Rightarrow> string \<Rightarrow> MarketCache" where
  "update_status s ticker status =
     notify (case map_of (cache s) ticker of
               None \<Rightarrow> s
             | Some state \<Rightarrow>
                 s\<lparr>cache := AList.update ticker (state\<lparr>market_status := status\<rparr>) (cache s)\<rparr>)"

section \<open>Trade intents and the permission layer (trading/)\<close>

text \<open>
  A UUID is modelled by its string form: \<open>str\<close> is injective on UUIDs, and the code
  only ever uses \<open>str(intent.client_order_id)\<close> and \<open>str(intent.agent_id)\<close>.
\<close>

record TradeIntent =
  agent_id :: string
  client_order_id :: string
  ti_market_ticker :: string
  action :: string
  side :: string
  order_type :: string
  price :: int
  count :: int
  confidence :: rat
  generated_at :: int

text \<open>
  The registered callback is a function of the intent and the environment; awaiting it
  yields its result. \<open>submit\<close> returns \<open>None\<close> when it returns without calling it.
  No statement of \<open>submit\<close> before the call can raise.
\<close>

record 'r TradingPermissionLayer =
  global_trading_enabled :: bool
  active_environment :: string
  keys_loaded :: "(string \<times> bool) list"
  agent_modes :: "(string \<times> string) list"
  on_approved :: "(TradeIntent \<Rightarrow> string \<Rightarrow> 'r) option"

definition init_permission_layer :: "'r TradingPermissionLayer" where
  "init_permission_layer =
     \<lparr>global_trading_enabled = False, active_environment = ''demo'',
      keys_loaded = [(''live'', False), (''demo'', False)], agent_modes = [],
      on_approved = None\<rparr>"

definition set_on_approved ::
  "'r TradingPermissionLayer \<Rightarrow> (TradeIntent \<Rightarrow> string \<Rightarrow> 'r) \<Rightarrow> 'r TradingPermissionLayer" where
  "set_on_approved s callback = s\<lparr>on_approved := Some callback\<rparr>"

definition set_global_trading :: "'r TradingPermissionLayer \<Rightarrow> bool \<Rightarrow> 'r TradingPermissionLayer" where
  "set_global_trading s enabled = s\<lparr>global_trading_enabled := enabled\<rparr>"

definition set_environment :: "'r TradingPermissionLayer \<Rightarrow> string \<Rightarrow> 'r TradingPermissionLayer" where
  "set_environment s environment = s\<lparr>active_environment := environment\<rparr>"

definition set_keys_loaded ::
  "'r TradingPermissionLayer \<Rightarrow> string \<Rightarrow> bool \<Rightarrow> 'r TradingPermissionLayer" where
  "set_keys_loaded s environment loaded =
     s\<lparr>keys_loaded := AList.update environment loaded (keys_loaded s)\<rparr>"

definition set_agent_mode ::
  "'r TradingPermissionLayer \<Rightarrow> string \<Rightarrow> string \<Rightarrow> 'r TradingPermissionLayer" where
  "set_agent_mode s aid mode = s\<lparr>agent_modes := AList.update aid mode (agent_modes s)\<rparr>"

definition submit :: "'r TradingPermissionLayer \<Rightarrow> TradeIntent \<Rightarrow> 'r option" where
  "submit s intent =
     (if \<not> global_trading_enabled s then None
      else
        let env = active_environment s
        in if \<not> py_get (map_of (keys_loaded s) env) False then None
           else
             let agent_mode = py_get (map_of (agent_modes s) (agent_id intent)) ''FullStop''
             in if agent_mode \<noteq> ''Auto'' then None
                else case on_approved s of
                       None \<Rightarrow> None
                     | Some callback \<Rightarrow> Some (callback intent env))"

section \<open>WebSocket client (kalshi/websocket_client.py)\<close>

record inner_msg =
  in_market_ticker :: "string option"
  in_seq :: "int option"
  in_payload :: string

record ws_message =
  wm_type :: "string option"
  wm_msg :: "inner_msg option"
  wm_env :: "string option"

definition empty_inner :: inner_msg where
  \<comment> \<open>the default \<open>{}\<close> of \<open>msg.get("msg", {})\<close>\<close>
  "empty_inner = \<lparr>in_market_ticker = None, in_seq = None, in_payload = []\<rparr>"

record ws_command =
  cmd_id :: nat
  cmd :: string
  cmd_channels :: "string list"
  cmd_market_tickers :: "string list"

datatype ws_task = SubscribeTask "string list" "string list"

text \<open>
  \<open>ws_open\<close> stands for \<open>self._ws and not self._ws.closed\<close>, \<open>sent\<close> for the frames
  written to the socket, \<open>queue\<close> for the inbound \<open>asyncio.Queue\<close>, and \<open>tasks\<close> for the
  coroutines handed to \<open>asyncio.create_task\<close>, which the event loop runs after the
  handler has returned.
\<close>

record KalshiWebSocketClient =
  ws_env :: string
  subscriptions :: "(string \<times> string) set"
  ob_seq :: "(string \<times> int) list"
  ws_open :: bool
  msg_id :: nat
  last_pong :: rat
  queue :: "ws_message list"
  sent :: "ws_command list"
  tasks :: "ws_task list"

definition next_id :: "KalshiWebSocketClient \<Rightarrow> nat \<times> KalshiWebSocketClient" where
  "next_id s = (msg_id s + 1, s\<lparr>msg_id := msg_id s + 1\<rparr>)"

definition send_subscribe ::
  "KalshiWebSocketClient \<Rightarrow> string list \<Rightarrow> string list \<Rightarrow> KalshiWebSocketClient" where
  "send_subscribe s channels market_tickers =
     (if \<not> ws_open s then s
      else
        let (i, s1) = next_id s;
            msg = \<lparr>cmd_id = i, cmd = ''subscribe'', cmd_channels = channels,
                   cmd_market_tickers = market_tickers\<rparr>
        in s1\<lparr>sent := sent s1 @ [msg]\<rparr>)"

definition subscribe ::
  "KalshiWebSocketClient \<Rightarrow> string list \<Rightarrow> string list \<Rightarrow> KalshiWebSocketClient" where
  "subscribe s channels market_tickers =
     (let new_keys = set (concat (map (\<lambda>ch. map (\<lambda>mt. (ch, mt)) market_tickers) channels))
                       - subscriptions s
      in if new_keys = {} then s
         else
           let s1 = s\<lparr>subscriptions := subscriptions s \<union> new_keys\<rparr>
           in if ws_open s1 then send_subscribe s1 channels market_tickers else s1)"

definition unsubscribe ::
  "KalshiWebSocketClient \<Rightarrow> string list \<Rightarrow> string list \<Rightarrow> KalshiWebSocketClient" where
  "unsubscribe s channels market_tickers =
     (let s1 = s\<lparr>subscriptions := subscriptions s
                   - set (concat (map (\<lambda>ch. map (\<lambda>mt. (ch, mt)) market_tickers) channels))\<rparr>
      in if ws_open s1 then
           let (i, s2) = next_id s1;
               msg = \<lparr>cmd_id = i, cmd = ''unsubscribe'', cmd_channels = channels,
                      cmd_market_tickers = market_tickers\<rparr>
           in s2\<lparr>sent := sent s2 @ [msg]\<rparr>
         else s1)"

text \<open>
  \<open>handle_raw s now raw\<close>: \<open>raw\<close> is the result of \<open>json.loads\<close>, \<open>None\<close> when it raises
  \<open>JSONDecodeError\<close>; \<open>now\<close> is the reading of \<open>time.monotonic()\<close>.
\<close>

definition handle_raw ::
  "KalshiWebSocketClient \<Rightarrow> rat \<Rightarrow> ws_message option \<Rightarrow> KalshiWebSocketClient" where
  "handle_raw s now raw =
     (case raw of
        None \<Rightarrow> s
      | Some msg0 \<Rightarrow>
          let msg_type = py_get (wm_type msg0) []
          in if msg_type = ''pong'' then s\<lparr>last_pong := now\<rparr>
             else if msg_type \<in> {''subscribed'', ''unsubscribed'', ''ok''} then s
             else
               let msg = msg0\<lparr>wm_env := Some (ws_env s)\<rparr>;
                   enqueue = (\<lambda>c. c\<lparr>queue := queue c @ [msg]\<rparr>)
               in if msg_type = ''orderbook_delta'' then
                    let inner = py_get (wm_msg msg) empty_inner;
                        ticker = py_get (in_market_ticker inner) [];
                        seq = in_seq inner
                    in case seq of
                         None \<Rightarrow> enqueue s
                       | Some sq \<Rightarrow>
                           if ticker = [] then enqueue s
                           else
                             (case map_of (ob_seq s) ticker of
                                Some prev \<Rightarrow>
                                  let expected = prev + 1
                                  in if sq \<noteq> expected then
                                       s\<lparr>ob_seq := AList.delete ticker (ob_seq s),
                                         subscriptions :=
                                           subscriptions s - {(''orderbook_delta'', ticker)},
                                         tasks := tasks s
                                           @ [SubscribeTask [''orderbook_delta''] [ticker]]\<rparr>
                                     else enqueue (s\<lparr>ob_seq := AList.update ticker sq (ob_seq s)\<rparr>)
                              | None \<Rightarrow> enqueue (s\<lparr>ob_seq := AList.update ticker sq (ob_seq s)\<rparr>))
                  else enqueue s)"

fun run_task :: "KalshiWebSocketClient \<Rightarrow> ws_task \<Rightarrow> KalshiWebSocketClient" where
  \<comment> \<open>the event loop running a coroutine that \<open>create_task\<close> scheduled\<close>
  "run_task s (SubscribeTask channels market_tickers) = subscribe s channels market_tickers"

section \<open>REST client (kalshi/rest_client.py)\<close>

datatype py_exception =
    PermissionError
  | RuntimeError
  | TimeoutError
  | ClientResponseError int
  | JSONDecodeError
  | AttributeError
  | OtherException string

record order_dict =
  od_order_id :: "string option"
  od_client_order_id :: "string option"
  od_status :: "string option"
  od_remaining_count :: "int option"

text \<open>
  The value under the key \<open>order\<close> of a decoded response: the key is absent, or it
  holds a dict, or it holds something that is not a dict (\<open>null\<close>), on which \<open>.get\<close>
  raises \<open>AttributeError\<close>. \<open>rb_top\<close> is the response itself read as an order dict.
\<close>

datatype order_field = OrderAbsent | OrderNull | OrderDict order_dict

record resp_body =
  rb_order :: order_field
  rb_top :: order_dict

record order_body =
  body_ticker :: string
  body_client_order_id :: string
  body_type :: string
  body_action :: string
  body_side :: string
  body_count :: int
  body_yes_price :: "int option"
  body_no_price :: "int option"

text \<open>
  What \<open>session.request\<close> does on one call: a response with a status and a body, or an
  exception raised inside the \<open>try\<close> block. The body is \<open>Some\<close> of the JSON object that
  \<open>resp.json()\<close> decodes, and \<open>None\<close> when \<open>resp.json()\<close> raises. The exchange is a list of
  such replies, one for each HTTP call, consumed from the front.
\<close>

datatype http_reply = Reply int "resp_body option" | Failure py_exception

datatype log_record =
    RestNonRetryable int
  | RestUnauthorized
  | RestRetryable int nat nat
  | RestFailed int
  | InvalidPrice int
  | InvalidCount int
  | MissingTicker
  | InvalidAction string
  | InvalidSide string
  | DuplicateClientOrderId string
  | OrderRejected401
  | SubmissionFailed nat py_exception
  | PermanentlyFailed string
  | SubmittedSuccessfully string
  | LoadedState nat nat

record order_record =
  or_order_id :: string
  or_client_order_id :: string
  or_agent_id :: string
  or_market_ticker :: string
  or_action :: string
  or_side :: string
  or_order_type :: string
  or_price :: int
  or_count :: int
  or_remaining_count :: int
  or_status :: string

record user_msg =
  um_order_id :: "string option"
  um_fill_id :: "string option"
  um_count :: "int option"
  um_status :: "string option"

datatype db_call =
    InsertOrder order_record string
  | UpdateOrderStatus string string string
  | InsertFill user_msg string

datatype event =
    OrderSubmitted string string string string int int string
  | OrderFailed string string string
  | OrderFilled user_msg string
  | OrderCancelled user_msg string

text \<open>
  The trace of a call: token acquisitions, HTTP calls with the reply each received,
  sleeps (in milliseconds; the source has seconds), log records, database coroutines
  handed to \<open>asyncio.create_task\<close>, and broadcasts.
\<close>

datatype effect =
    Acquire bool
  | Http string string "order_body option" http_reply
  | Sleep nat
  | Log log_record
  | CreateTask db_call
  | Broadcast event

record KalshiRestClient =
  rc_env :: string
  api_key :: "string option"
  private_key :: "string option"

definition is_configured :: "KalshiRestClient \<Rightarrow> bool" where
  \<comment> \<open>\<open>bool(self._api_key and self._private_key)\<close>; a loaded key object is truthy\<close>
  "is_configured c = (\<not> is_falsy (api_key c) \<and> private_key c \<noteq> None)"

definition RETRY_TABLE :: "int \<Rightarrow> (nat \<times> nat) option" where
  "RETRY_TABLE status =
     (if status = 429 then Some (100, 5)
      else if status = 500 then Some (500, 3)
      else if status = 503 then Some (1000, 3)
      else None)"

definition RETRY_TABLE_timeout :: "nat \<times> nat" where
  "RETRY_TABLE_timeout = (250, 3)"

definition NO_RETRY_CODES :: "int set" where
  "NO_RETRY_CODES = {400, 401, 404}"

definition raise_for_status :: "int \<Rightarrow> py_exception option" where
  \<comment> \<open>aiohttp: \<open>ClientResponseError\<close> for a status of 400 or more, else a plain return\<close>
  "raise_for_status status = (if 400 \<le> status then Some (ClientResponseError status) else None)"

datatype action = Return resp_body | Raise py_exception | SleepRetry | Again

definition request_failed :: "int \<Rightarrow> effect list \<times> action" where
  \<comment> \<open>the last statements of the \<open>async with\<close> block; without a raise the \<open>while\<close> loops\<close>
  "request_failed status =
     ([Log (RestFailed status)],
      case raise_for_status status of Some e \<Rightarrow> Raise e | None \<Rightarrow> Again)"

definition on_response :: "int \<Rightarrow> resp_body option \<Rightarrow> nat \<Rightarrow> effect list \<times> action" where
  "on_response status body attempt =
     (if status = 200 \<or> status = 201 then
        (case body of
           None \<Rightarrow> ([], Raise JSONDecodeError)
         | Some b \<Rightarrow> ([], Return b))
      else
        let after_no_retry =
              (if status = 401 then ([Log RestUnauthorized], Raise PermissionError)
               else case RETRY_TABLE status of
                      Some (base_delay, max_att) \<Rightarrow>
                        if attempt < max_att then
                          let delay = (if status = 429 then base_delay * 2 ^ attempt
                                       else base_delay)
                          in ([Log (RestRetryable status (attempt + 1) delay), Sleep delay],
                              SleepRetry)
                        else request_failed status
                    | None \<Rightarrow> request_failed status)
        in if status \<in> NO_RETRY_CODES then
             (case raise_for_status status of
                Some e \<Rightarrow> ([Log (RestNonRetryable status)], Raise e)
              | None \<Rightarrow> (Log (RestNonRetryable status) # fst after_no_retry, snd after_no_retry))
           else after_no_retry)"

definition is_write :: "string \<Rightarrow> bool" where
  \<comment> \<open>the callers pass the method in capitals\<close>
  "is_write method = (method \<in> {''POST'', ''DELETE''})"

type_synonym 'a outcome = "('a \<times> effect list \<times> http_reply list) option"

definition after :: "effect list \<Rightarrow> 'a outcome \<Rightarrow> 'a outcome" where
  \<comment> \<open>the effects so far, then the rest of the computation\<close>
  "after effs r = (case r of None \<Rightarrow> None | Some (x, tr, tape) \<Rightarrow> Some (x, effs @ tr, tape))"

text \<open>
  \<open>request\<close> is the loop \<open>while True\<close> of \<open>_request\<close>, entered with \<open>attempt\<close>. It returns
  \<open>None\<close> when the replies run out before the loop has left; otherwise the exception
  raised or the body returned, the trace, and the replies not consumed.
\<close>

fun request ::
  "KalshiRestClient \<Rightarrow> string \<Rightarrow> string \<Rightarrow> order_body option \<Rightarrow> nat \<Rightarrow> http_reply list
     \<Rightarrow> (py_exception + resp_body) outcome" where
  "request c method endpoint json_body attempt [] =
     (if \<not> is_configured c then Some (Inl RuntimeError, [Acquire (is_write method)], [])
      else None)"
| "request c method endpoint json_body attempt (reply # tape) =
     (if \<not> is_configured c
      then Some (Inl RuntimeError, [Acquire (is_write method)], reply # tape)
      else
        let pre = [Acquire (is_write method), Http method endpoint json_body reply]
        in case reply of
             Reply status body \<Rightarrow>
               (case on_response status body attempt of
                  (effs, Return b) \<Rightarrow> Some (Inr b, pre @ effs, tape)
                | (effs, Raise e) \<Rightarrow> Some (Inl e, pre @ effs, tape)
                | (effs, SleepRetry) \<Rightarrow>
                    after (pre @ effs) (request c method endpoint json_body (attempt + 1) tape)
                | (effs, Again) \<Rightarrow>
                    after (pre @ effs) (request c method endpoint json_body attempt tape))
           | Failure e \<Rightarrow>
               if e = TimeoutError then
                 (case RETRY_TABLE_timeout of
                    (base_delay, max_att) \<Rightarrow>
                      if attempt < max_att then
                        after (pre @ [Sleep base_delay])
                          (request c method endpoint json_body (attempt + 1) tape)
                      else Some (Inl e, pre, tape))
               else Some (Inl e, pre, tape))"

definition post ::
  "KalshiRestClient \<Rightarrow> string \<Rightarrow> order_body \<Rightarrow> http_reply list
     \<Rightarrow> (py_exception + resp_body) outcome" where
  "post c endpoint body tape = request c ''POST'' endpoint (Some body) 0 tape"

definition create_order ::
  "KalshiRestClient \<Rightarrow> order_body \<Rightarrow> http_reply list \<Rightarrow> (py_exception + resp_body) outcome" where
  "create_order c body tape = post c ''/portfolio/orders'' body tape"

section \<open>Execution engine (trading/execution_engine.py)\<close>

record position_dict =
  pos_market_ticker :: "string option"
  pos_position :: "int option"

text \<open>
  \<open>rest\<close> is the state of the REST client the engine holds; \<open>has_db\<close> and
  \<open>has_broadcaster\<close> say whether \<open>self._db\<close> and \<open>self._broadcaster\<close> are set.
\<close>

record ExecutionEngine =
  rest :: KalshiRestClient
  has_db :: bool
  engine_env :: string
  has_broadcaster :: bool
  submitted_ids :: "string set"
  open_orders :: "(string \<times> order_dict) list"
  positions :: "(string \<times> position_dict) list"

definition init_engine :: "KalshiRestClient \<Rightarrow> bool \<Rightarrow> string \<Rightarrow> bool \<Rightarrow> ExecutionEngine" where
  "init_engine rest_client db environment event_broadcaster =
     \<lparr>rest = rest_client, has_db = db, engine_env = environment,
      has_broadcaster = event_broadcaster, submitted_ids = {}, open_orders = [],
      positions = []\<rparr>"

definition load_state_from_db ::
  "ExecutionEngine \<Rightarrow> order_dict list \<Rightarrow> position_dict list \<Rightarrow> ExecutionEngine \<times> effect list" where
  \<comment> \<open>the two lists are what \<open>get_open_orders\<close> and \<open>get_positions\<close> return\<close>
  "load_state_from_db e db_orders db_positions =
     (if \<not> has_db e then (e, [])
      else
        let e1 = fold (\<lambda>row e'.
                   let oid = py_get (od_order_id row) [];
                       cid = py_get (od_client_order_id row) []
                   in e'\<lparr>open_orders := AList.update oid row (open_orders e'),
                         submitted_ids := insert cid (submitted_ids e')\<rparr>) db_orders e;
            e2 = fold (\<lambda>pos e'.
                   let ticker = py_get (pos_market_ticker pos) []
                   in e'\<lparr>positions := AList.update ticker pos (positions e')\<rparr>) db_positions e1
        in (e2, [Log (LoadedState (length (open_orders e2)) (length (positions e2)))]))"

definition validate :: "TradeIntent \<Rightarrow> bool \<times> effect list" where
  "validate intent =
     (if \<not> (1 \<le> price intent \<and> price intent \<le> 99)
        then (False, [Log (InvalidPrice (price intent))])
      else if count intent \<le> 0 then (False, [Log (InvalidCount (count intent))])
      else if ti_market_ticker intent = [] then (False, [Log MissingTicker])
      else if action intent \<notin> {''buy'', ''sell''}
        then (False, [Log (InvalidAction (action intent))])
      else if side intent \<notin> {''yes'', ''no''} then (False, [Log (InvalidSide (side intent))])
      else (True, []))"

definition order_of :: "resp_body \<Rightarrow> order_dict option" where
  \<comment> \<open>\<open>resp.get("order", resp)\<close>; \<open>None\<close> when the value has no \<open>.get\<close>\<close>
  "order_of resp =
     (case rb_order resp of
        OrderAbsent \<Rightarrow> Some (rb_top resp)
      | OrderDict d \<Rightarrow> Some d
      | OrderNull \<Rightarrow> None)"

text \<open>
  \<open>_on_order_success\<close> raises \<open>AttributeError\<close> at \<open>order.get("order_id", "")\<close>, before it
  has changed anything, when \<open>order\<close> is not a dict.
\<close>

definition on_order_success ::
  "ExecutionEngine \<Rightarrow> resp_body \<Rightarrow> TradeIntent \<Rightarrow> string
     \<Rightarrow> py_exception + ExecutionEngine \<times> effect list" where
  "on_order_success e resp intent environment =
     (case order_of resp of
        None \<Rightarrow> Inl AttributeError
      | Some order \<Rightarrow>
          let order_id = py_get (od_order_id order) [];
              e1 = e\<lparr>open_orders := AList.update order_id order (open_orders e)\<rparr>;
              order_rec = \<lparr>or_order_id = order_id,
                           or_client_order_id = client_order_id intent,
                           or_agent_id = agent_id intent,
                           or_market_ticker = ti_market_ticker intent,
                           or_action = action intent,
                           or_side = side intent,
                           or_order_type = order_type intent,
                           or_price = price intent,
                           or_count = count intent,
                           or_remaining_count = count intent,
                           or_status = py_get (od_status order) ''resting''\<rparr>
          in Inr (e1,
                  [Log (SubmittedSuccessfully order_id)]
                  @ (if has_db e then [CreateTask (InsertOrder order_rec environment)] else [])
                  @ (if has_broadcaster e
                     then [Broadcast (OrderSubmitted order_id (ti_market_ticker intent)
                             (action intent) (side intent) (price intent) (count intent)
                             environment)]
                     else [])))"

definition on_order_failed :: "ExecutionEngine \<Rightarrow> TradeIntent \<Rightarrow> string \<Rightarrow> effect list" where
  "on_order_failed e intent environment =
     (if has_broadcaster e
      then [Broadcast (OrderFailed (client_order_id intent) (ti_market_ticker intent) environment)]
      else [])"

definition order_body_of :: "TradeIntent \<Rightarrow> order_body" where
  \<comment> \<open>the dict \<open>body\<close>, with the price under \<open>yes_price\<close> or \<open>no_price\<close>\<close>
  "order_body_of intent =
     \<lparr>body_ticker = ti_market_ticker intent,
      body_client_order_id = client_order_id intent,
      body_type = order_type intent,
      body_action = action intent,
      body_side = side intent,
      body_count = count intent,
      body_yes_price = (if side intent = ''yes'' then Some (price intent) else None),
      body_no_price = (if side intent = ''yes'' then None else Some (price intent))\<rparr>"

text \<open>
  \<open>try_block\<close> is the body of the \<open>try\<close>: \<open>create_order\<close>, then \<open>_on_order_success\<close>;
  an exception of either leaves it. \<open>submit_attempts\<close> is the loop
  \<open>for attempt in range(5)\<close> over the attempts that are left, with the two \<open>except\<close>
  clauses, followed by the statements after the loop.
\<close>

definition try_block ::
  "ExecutionEngine \<Rightarrow> TradeIntent \<Rightarrow> string \<Rightarrow> http_reply list
     \<Rightarrow> (py_exception + ExecutionEngine) outcome" where
  "try_block e intent environment tape =
     (case create_order (rest e) (order_body_of intent) tape of
        None \<Rightarrow> None
      | Some (Inl exc, tr, tape') \<Rightarrow> Some (Inl exc, tr, tape')
      | Some (Inr resp, tr, tape') \<Rightarrow>
          (case on_order_success e resp intent environment of
             Inl exc \<Rightarrow> Some (Inl exc, tr, tape')
           | Inr (e', tr') \<Rightarrow> Some (Inr e', tr @ tr', tape')))"

fun submit_attempts ::
  "ExecutionEngine \<Rightarrow> TradeIntent \<Rightarrow> string \<Rightarrow> nat list \<Rightarrow> http_reply list
     \<Rightarrow> ExecutionEngine outcome" where
  "submit_attempts e intent environment [] tape =
     Some (e, Log (PermanentlyFailed (client_order_id intent))
              # on_order_failed e intent environment, tape)"
| "submit_attempts e intent environment (attempt # later) tape =
     (case try_block e intent environment tape of
        None \<Rightarrow> None
      | Some (Inr e', tr, tape') \<Rightarrow> Some (e', tr, tape')
      | Some (Inl exc, tr, tape') \<Rightarrow>
          if exc = PermissionError then Some (e, tr @ [Log OrderRejected401], tape')
          else
            let wait = 100 * 2 ^ attempt
            in after (tr @ [Log (SubmissionFailed (attempt + 1) exc), Sleep wait])
                 (submit_attempts e intent environment later tape'))"

definition submit_with_retry ::
  "ExecutionEngine \<Rightarrow> TradeIntent \<Rightarrow> string \<Rightarrow> http_reply list \<Rightarrow> ExecutionEngine outcome" where
  "submit_with_retry e intent environment tape =
     submit_attempts e intent environment [0, 1, 2, 3, 4] tape"

definition execute ::
  "ExecutionEngine \<Rightarrow> TradeIntent \<Rightarrow> string \<Rightarrow> http_reply list \<Rightarrow> ExecutionEngine outcome" where
  "execute e intent environment tape =
     (case validate intent of
        (False, logs) \<Rightarrow> Some (e, logs, tape)
      | (True, logs) \<Rightarrow>
          let client_id = client_order_id intent
          in if client_id \<in> submitted_ids e
             then Some (e, logs @ [Log (DuplicateClientOrderId client_id)], tape)
             else after logs
                    (submit_with_retry (e\<lparr>submitted_ids := insert client_id (submitted_ids e)\<rparr>)
                       intent environment tape))"

definition handle_fill ::
  "ExecutionEngine \<Rightarrow> user_msg \<Rightarrow> string \<Rightarrow> ExecutionEngine \<times> effect list" where
  "handle_fill e msg environment =
     (let order_id = py_get (um_order_id msg) [];
          (e1, tr1) =
            (case map_of (open_orders e) order_id of
               None \<Rightarrow> (e, [])
             | Some order \<Rightarrow>
                 let remaining = py_get (od_remaining_count order) 0 - py_get (um_count msg) 0
                 in if remaining \<le> 0 then
                      (e\<lparr>open_orders := AList.delete order_id (open_orders e)\<rparr>,
                       if has_db e
                       then [CreateTask (UpdateOrderStatus order_id ''filled'' environment)]
                       else [])
                    else
                      (e\<lparr>open_orders := AList.update order_id
                           (order\<lparr>od_remaining_count := Some remaining\<rparr>) (open_orders e)\<rparr>, []));
          fill_id = py_get (um_fill_id msg) []
      in (e1,
          tr1
          @ (if fill_id \<noteq> [] \<and> has_db e then [CreateTask (InsertFill msg environment)] else [])
          @ (if has_broadcaster e then [Broadcast (OrderFilled msg environment)] else [])))"

definition handle_order_update ::
  "ExecutionEngine \<Rightarrow> user_msg \<Rightarrow> string \<Rightarrow> ExecutionEngine \<times> effect list" where
  "handle_order_update e msg environment =
     (let order_id = py_get (um_order_id msg) [];
          status = py_get (um_status msg) []
      in if status \<in> {''cancelled'', ''filled'', ''expired''} then
           (e\<lparr>open_orders := AList.delete order_id (open_orders e)\<rparr>,
            (if has_db e then [CreateTask (UpdateOrderStatus order_id status environment)] else [])
            @ (if has_broadcaster e
               then [Broadcast (if status = ''cancelled'' then OrderCancelled msg environment
                                else OrderFilled msg environment)]
               else []))
         else (e, []))"

text \<open>
  The calls a process makes on one engine, in the order in which they run, over one
  list of replies of the exchange.
\<close>

datatype engine_call =
    Execute TradeIntent string
  | HandleFill user_msg string
  | HandleOrderUpdate user_msg string
  | LoadStateFromDb "order_dict list" "position_dict list"

fun run_call :: "ExecutionEngine \<Rightarrow> engine_call \<Rightarrow> http_reply list \<Rightarrow> ExecutionEngine outcome" where
  "run_call e (Execute intent environment) tape = execute e intent environment tape"
| "run_call e (HandleFill msg environment) tape =
     (case handle_fill e msg environment of (e', tr) \<Rightarrow> Some (e', tr, tape))"
| "run_call e (HandleOrderUpdate msg environment) tape =
     (case handle_order_update e msg environment of (e', tr) \<Rightarrow> Some (e', tr, tape))"
| "run_call e (LoadStateFromDb db_orders db_positions) tape =
     (case load_state_from_db e db_orders db_positions of (e', tr) \<Rightarrow> Some (e', tr, tape))"

fun run_calls ::
  "ExecutionEngine \<Rightarrow> engine_call list \<Rightarrow> http_reply list \<Rightarrow> ExecutionEngine outcome" where
  "run_calls e [] tape = Some (e, [], tape)"
| "run_calls e (c # cs) tape =
     (case run_call e c tape of
        None \<Rightarrow> None
      | Some (e', tr, tape') \<Rightarrow> after tr (run_calls e' cs tape'))"

section \<open>Properties and sample inputs\<close>

subsection \<open>Market cache\<close>

definition derived_fields_ok :: "MarketState \<Rightarrow> bool" where
  "derived_fields_ok st \<longleftrightarrow>
     yes_ask st = 100 - no_bid st \<and>
     no_ask st = 100 - yes_bid st \<and>
     spread st = yes_ask st - yes_bid st \<and>
     midpoint st = of_int (yes_bid st + yes_ask st) / 2"

definition cache_ok :: "MarketCache \<Rightarrow> bool" where
  "cache_ok s = list_all (\<lambda>(t, st). derived_fields_ok st) (cache s)"

definition no_ask_ok :: "MarketCache \<Rightarrow> bool" where
  "no_ask_ok s = list_all (\<lambda>(t, st). no_ask st = 100 - yes_bid st) (cache s)"

definition quoted :: "MarketCache \<Rightarrow> string \<Rightarrow> (int \<times> int) option" where
  \<comment> \<open>the stored \<open>(yes_ask, no_ask)\<close> of a market\<close>
  "quoted s t = map_option (\<lambda>st. (yes_ask st, no_ask st)) (map_of (cache s) t)"

definition book_of :: "MarketCache \<Rightarrow> string \<Rightarrow> orderbook_dict option" where
  "book_of s t = (case map_of (cache s) t of None \<Rightarrow> None | Some st \<Rightarrow> orderbook st)"

definition apply_deltas :: "MarketCache \<Rightarrow> orderbook_msg list \<Rightarrow> MarketCache" where
  \<comment> \<open>the dispatcher handing orderbook messages to the cache one after the other\<close>
  "apply_deltas s msgs = fold (\<lambda>m c. apply_orderbook_delta c m) msgs s"

definition known_market :: "MarketCache \<Rightarrow> string option \<Rightarrow> bool" where
  "known_market s v = (case v of None \<Rightarrow> False | Some t \<Rightarrow> map_of (cache s) t \<noteq> None)"

definition ticker_with_ask :: ticker_msg where
  "ticker_with_ask = \<lparr>tm_market_ticker = Some ''KXBTC'', tm_event_ticker = None,
     tm_series_ticker = None, tm_status = None, tm_yes_bid = Some 40, tm_no_bid = Some 50,
     tm_yes_ask = Some 55, tm_last_price = None, tm_volume = None, tm_open_interest = None,
     tm_ts = None\<rparr>"

definition ticker_plain :: ticker_msg where
  "ticker_plain = ticker_with_ask\<lparr>tm_yes_ask := None\<rparr>"

definition discovery_new :: discovery_data where
  "discovery_new = \<lparr>md_ticker = Some ''KXBTC'', md_event_ticker = Some ''EV'',
     md_series_ticker = None, md_status = Some ''open'', md_yes_bid = Some 40,
     md_no_bid = Some 50, md_last_price = None, md_volume = None, md_open_interest = None\<rparr>"

definition discovery_closed :: discovery_data where
  "discovery_closed = discovery_new\<lparr>md_status := Some ''closed''\<rparr>"

definition snapshot_msg :: orderbook_msg where
  "snapshot_msg = \<lparr>om_market_ticker = Some ''KXBTC'', om_seq = Some 1,
     om_yes = Some [(40, 10), (38, 5)], om_no = Some [(55, 7)]\<rparr>"

definition delta_msg :: orderbook_msg where
  "delta_msg = \<lparr>om_market_ticker = Some ''KXBTC'', om_seq = Some 2,
     om_yes = Some [(40, 0), (41, 3)], om_no = None\<rparr>"

definition one_market :: MarketCache where
  "one_market = upsert_from_discovery init_cache discovery_new"

subsection \<open>Permission layer and WebSocket client\<close>

definition gates_pass :: "'r TradingPermissionLayer \<Rightarrow> TradeIntent \<Rightarrow> bool" where
  "gates_pass s intent \<longleftrightarrow>
     global_trading_enabled s \<and>
     map_of (keys_loaded s) (active_environment s) = Some True \<and>
     map_of (agent_modes s) (agent_id intent) = Some ''Auto''"

definition sequence_gap :: "KalshiWebSocketClient \<Rightarrow> string \<Rightarrow> int \<Rightarrow> bool" where
  "sequence_gap s t sq =
     (case map_of (ob_seq s) t of None \<Rightarrow> False | Some prev \<Rightarrow> sq \<noteq> prev + 1)"

definition intent1 :: TradeIntent where
  "intent1 = \<lparr>agent_id = ''agent-prime'', client_order_id = ''cid-1'',
     ti_market_ticker = ''KXBTC'', action = ''buy'', side = ''yes'', order_type = ''limit'',
     price = 41, count = 1, confidence = 1, generated_at = 0\<rparr>"

definition layer_open :: "(TradeIntent \<times> string) TradingPermissionLayer" where
  "layer_open =
     set_agent_mode
       (set_keys_loaded
          (set_global_trading (set_on_approved init_permission_layer Pair) True)
          ''demo'' True)
       ''agent-prime'' ''Auto''"

definition layer_semi :: "(TradeIntent \<times> string) TradingPermissionLayer" where
  "layer_semi = set_agent_mode layer_open ''agent-prime'' ''SemiAuto''"

definition book_frame :: "string \<Rightarrow> int \<Rightarrow> ws_message" where
  "book_frame t sq = \<lparr>wm_type = Some ''orderbook_delta'',
     wm_msg = Some \<lparr>in_market_ticker = Some t, in_seq = Some sq, in_payload = []\<rparr>,
     wm_env = None\<rparr>"

definition ws_tracking :: KalshiWebSocketClient where
  "ws_tracking = \<lparr>ws_env = ''demo'', subscriptions = {(''orderbook_delta'', ''KXBTC'')},
     ob_seq = [(''KXBTC'', 11)], ws_open = True, msg_id = 1, last_pong = 0, queue = [],
     sent = [], tasks = []\<rparr>"

definition booked_market :: MarketCache where
  "booked_market = apply_orderbook_delta one_market delta_msg"

definition snapshot_unknown :: orderbook_msg where
  "snapshot_unknown = snapshot_msg\<lparr>om_market_ticker := Some ''KXETH''\<rparr>"

datatype cache_write =
    TickerWrite ticker_msg
  | DeltaWrite orderbook_msg
  | DiscoveryWrite discovery_data
  | TradeWrite trade_msg
  | StatusWrite string string

fun apply_write :: "MarketCache \<Rightarrow> cache_write \<Rightarrow> MarketCache" where
  "apply_write s (TickerWrite msg) = upsert_from_ticker s msg"
| "apply_write s (DeltaWrite msg) = apply_orderbook_delta s msg"
| "apply_write s (DiscoveryWrite market_data) = upsert_from_discovery s market_data"
| "apply_write s (TradeWrite msg) = append_trade s msg"
| "apply_write s (StatusWrite ticker status) = update_status s ticker status"

definition run_writes :: "MarketCache \<Rightarrow> cache_write list \<Rightarrow> MarketCache" where
  \<comment> \<open>the writes of the dispatcher and of discovery, in the order in which they run\<close>
  "run_writes s ws = fold (\<lambda>w c. apply_write c w) ws s"

definition derives_ask :: "ticker_msg \<Rightarrow> bool" where
  \<comment> \<open>the message has no \<open>yes_ask\<close> of its own, or one equal to \<open>100 - no_bid\<close>\<close>
  "derives_ask tm \<longleftrightarrow>
     tm_yes_ask tm = None \<or> tm_yes_ask tm = Some (100 - py_get (tm_no_bid tm) 0)"

fun asks_derived :: "cache_write \<Rightarrow> bool" where
  "asks_derived (TickerWrite msg) = derives_ask msg"
| "asks_derived _ = True"

definition writes_sample :: "cache_write list" where
  "writes_sample =
     [DiscoveryWrite discovery_new, TickerWrite ticker_plain, DeltaWrite snapshot_msg,
      TradeWrite \<lparr>tr_market_ticker = Some ''KXBTC'', tr_msg_yes_price = Some 41,
        tr_msg_count = Some 2, tr_msg_taker_side = Some ''yes'', tr_msg_ts = Some 7\<rparr>,
      StatusWrite ''KXBTC'' ''closed'']"

definition writes_with_ask :: "cache_write list" where
  "writes_with_ask =
     [TickerWrite ticker_with_ask, DiscoveryWrite discovery_closed,
      DeltaWrite snapshot_unknown, StatusWrite ''KXBTC'' ''closed'']"

subsection \<open>Execution engine\<close>

fun is_http :: "effect \<Rightarrow> bool" where
  "is_http (Http method endpoint json_body reply) = True"
| "is_http _ = False"

fun is_sleep :: "effect \<Rightarrow> bool" where
  "is_sleep (Sleep ms) = True"
| "is_sleep _ = False"

fun persists_order :: "effect \<Rightarrow> bool" where
  "persists_order (CreateTask (InsertOrder r environment)) = True"
| "persists_order _ = False"

definition quiet :: "effect list \<Rightarrow> bool" where
  \<comment> \<open>no HTTP call and no order row handed to the database\<close>
  "quiet tr = list_all (\<lambda>eff. \<not> is_http eff \<and> \<not> persists_order eff) tr"

fun answered_submit :: "effect \<Rightarrow> string option" where
  "answered_submit (Http method endpoint (Some body) (Reply status b)) =
     (if status = 200 \<or> status = 201 then Some (body_client_order_id body) else None)"
| "answered_submit _ = None"

definition answered_ids :: "effect list \<Rightarrow> string list" where
  \<comment> \<open>the \<open>client_order_id\<close> of every HTTP call with a body that was answered 200 or 201\<close>
  "answered_ids tr = List.map_filter answered_submit tr"

fun accepted_submit :: "effect \<Rightarrow> string option" where
  "accepted_submit (Http method endpoint (Some body) (Reply status (Some b))) =
     (if (status = 200 \<or> status = 201) \<and> order_of b \<noteq> None
      then Some (body_client_order_id body) else None)"
| "accepted_submit _ = None"

definition accepted_ids :: "effect list \<Rightarrow> string list" where
  \<comment> \<open>the \<open>client_order_id\<close> of every HTTP call answered 200 or 201 with a body that
     decodes and holds an order: the submits \<open>_on_order_success\<close> goes through with\<close>
  "accepted_ids tr = List.map_filter accepted_submit tr"

definition other_fields_valid :: "TradeIntent \<Rightarrow> bool" where
  "other_fields_valid i \<longleftrightarrow>
     0 < count i \<and> ti_market_ticker i \<noteq> [] \<and> action i \<in> {''buy'', ''sell''}
     \<and> side i \<in> {''yes'', ''no''}"

definition summary :: "ExecutionEngine outcome \<Rightarrow> (ExecutionEngine \<times> bool \<times> http_reply list) option" where
  \<comment> \<open>the state and the replies left after a call, and whether its trace is quiet\<close>
  "summary r = map_option (\<lambda>(e, tr, tape). (e, quiet tr, tape)) r"

definition rest_demo :: KalshiRestClient where
  "rest_demo = \<lparr>rc_env = ''demo'', api_key = Some ''key'', private_key = Some ''pem''\<rparr>"

definition engine_demo :: ExecutionEngine where
  "engine_demo = init_engine rest_demo True ''demo'' True"

definition no_order :: order_dict where
  "no_order = \<lparr>od_order_id = None, od_client_order_id = None, od_status = None,
     od_remaining_count = None\<rparr>"

definition error_body :: resp_body where
  "error_body = \<lparr>rb_order = OrderAbsent, rb_top = no_order\<rparr>"

definition null_order_body :: resp_body where
  \<comment> \<open>the JSON object with \<open>"order": null\<close>\<close>
  "null_order_body = \<lparr>rb_order = OrderNull, rb_top = no_order\<rparr>"

definition accepted_order :: order_dict where
  "accepted_order = \<lparr>od_order_id = Some ''O1'', od_client_order_id = Some ''cid-1'',
     od_status = Some ''resting'', od_remaining_count = None\<rparr>"

definition accepted_body :: resp_body where
  "accepted_body = \<lparr>rb_order = OrderDict accepted_order, rb_top = no_order\<rparr>"

definition unauthorized_replies :: "http_reply list" where
  "unauthorized_replies = replicate 5 (Reply 401 (Some error_body))"

definition rejected_replies :: "http_reply list" where
  "rejected_replies = replicate 5 (Reply 400 (Some error_body))"

definition unusable_then_accepted :: "http_reply list" where
  \<comment> \<open>a 201 whose order is null, then a 201 with the order\<close>
  "unusable_then_accepted = [Reply 201 (Some null_order_body), Reply 201 (Some accepted_body)]"

definition engine_after_accept :: ExecutionEngine where
  "engine_after_accept =
     engine_demo\<lparr>submitted_ids := {''cid-1''}, open_orders := [(''O1'', accepted_order)]\<rparr>"

definition engine_after_failure :: ExecutionEngine where
  "engine_after_failure = engine_demo\<lparr>submitted_ids := {''cid-1''}\<rparr>"

definition attempt_counts ::
  "ExecutionEngine outcome \<Rightarrow> (nat \<times> nat \<times> bool \<times> bool \<times> bool \<times> http_reply list) option" where
  \<comment> \<open>HTTP calls, sleeps, the two 401 log records, the \<open>order_failed\<close> broadcast, replies left\<close>
  "attempt_counts r =
     map_option (\<lambda>(e, tr, tape).
        (length (filter is_http tr), length (filter is_sleep tr),
         Log OrderRejected401 \<in> set tr, Log RestUnauthorized \<in> set tr,
         Broadcast (OrderFailed ''cid-1'' ''KXBTC'' ''demo'') \<in> set tr, tape)) r"

definition fill_msg1 :: user_msg where
  "fill_msg1 = \<lparr>um_order_id = Some ''O9'', um_fill_id = Some ''F1'', um_count = Some 1,
     um_status = None\<rparr>"

section \<open>Market cache: derived fields, snapshots, notification\<close>

lemma list_all_update:
  "list_all (\<lambda>(k, v). P v) al \<Longrightarrow> P v \<Longrightarrow> list_all (\<lambda>(k, v). P v) (AList.update k v al)"
  by (induction al) auto

lemma list_all_map_of:
  "list_all (\<lambda>(k, v). P v) al \<Longrightarrow> map_of al k = Some v \<Longrightarrow> P v"
  by (induction al) (auto split: if_splits)

lemma rederive_ok: "orderbook st \<noteq> None \<Longrightarrow> derived_fields_ok (rederive_from_book st)"
  by (auto simp: rederive_from_book_def derived_fields_ok_def Let_def split: option.splits)

lemma rederive_no_ask:
  "orderbook st \<noteq> None \<Longrightarrow>
   no_ask (rederive_from_book st) = 100 - yes_bid (rederive_from_book st)"
  using rederive_ok[of st] by (simp add: derived_fields_ok_def)

lemma cache_ok_delta: "cache_ok s \<Longrightarrow> cache_ok (apply_orderbook_delta s om)"
  unfolding cache_ok_def apply_orderbook_delta_def Let_def notify_def
  by (auto split: option.splits intro!: list_all_update rederive_ok)

lemma cache_ok_discovery: "cache_ok s \<Longrightarrow> cache_ok (upsert_from_discovery s md)"
  unfolding cache_ok_def upsert_from_discovery_def Let_def
  by (auto split: option.splits prod.splits intro!: list_all_update dest: list_all_map_of
      simp: derived_fields_ok_def compute_derived_def Let_def)

lemma cache_ok_ticker:
  "cache_ok s \<Longrightarrow> derives_ask tm \<Longrightarrow> cache_ok (upsert_from_ticker s tm)"
  unfolding cache_ok_def upsert_from_ticker_def Let_def notify_def derives_ask_def
  by (auto split: option.splits prod.splits intro!: list_all_update
      simp: derived_fields_ok_def compute_derived_def Let_def)

lemma cache_ok_trade: "cache_ok s \<Longrightarrow> cache_ok (append_trade s m)"
  unfolding cache_ok_def append_trade_def Let_def notify_def
  by (auto split: option.splits intro!: list_all_update dest: list_all_map_of
      simp: derived_fields_ok_def)

lemma cache_ok_status: "cache_ok s \<Longrightarrow> cache_ok (update_status s t st)"
  unfolding cache_ok_def update_status_def Let_def notify_def
  by (auto split: option.splits intro!: list_all_update dest: list_all_map_of
      simp: derived_fields_ok_def)

lemma no_ask_ok_ticker: "no_ask_ok s \<Longrightarrow> no_ask_ok (upsert_from_ticker s tm)"
  unfolding no_ask_ok_def upsert_from_ticker_def Let_def notify_def
  by (auto split: option.splits prod.splits intro!: list_all_update
      simp: compute_derived_def Let_def)

lemma no_ask_ok_delta: "no_ask_ok s \<Longrightarrow> no_ask_ok (apply_orderbook_delta s om)"
  unfolding no_ask_ok_def apply_orderbook_delta_def Let_def notify_def
  by (auto split: option.splits intro!: list_all_update rederive_no_ask)

lemma no_ask_ok_discovery: "no_ask_ok s \<Longrightarrow> no_ask_ok (upsert_from_discovery s md)"
  unfolding no_ask_ok_def upsert_from_discovery_def Let_def
  by (auto split: option.splits prod.splits intro!: list_all_update dest: list_all_map_of
      simp: compute_derived_def Let_def)

lemma no_ask_ok_trade: "no_ask_ok s \<Longrightarrow> no_ask_ok (append_trade s m)"
  unfolding no_ask_ok_def append_trade_def Let_def notify_def
  by (auto split: option.splits intro!: list_all_update dest: list_all_map_of)

lemma no_ask_ok_status: "no_ask_ok s \<Longrightarrow> no_ask_ok (update_status s t st)"
  unfolding no_ask_ok_def update_status_def Let_def notify_def
  by (auto split: option.splits intro!: list_all_update dest: list_all_map_of)

lemma no_ask_ok_write: "no_ask_ok s \<Longrightarrow> no_ask_ok (apply_write s w)"
  by (cases w)
    (simp_all add: no_ask_ok_ticker no_ask_ok_delta no_ask_ok_discovery no_ask_ok_trade
      no_ask_ok_status)

lemma cache_ok_write: "cache_ok s \<Longrightarrow> asks_derived w \<Longrightarrow> cache_ok (apply_write s w)"
  by (cases w)
    (simp_all add: cache_ok_ticker cache_ok_delta cache_ok_discovery cache_ok_trade
      cache_ok_status)

lemma no_ask_ok_run: "no_ask_ok s \<Longrightarrow> no_ask_ok (run_writes s ws)"
  unfolding run_writes_def by (induction ws arbitrary: s) (simp_all add: no_ask_ok_write)

lemma cache_ok_run: "cache_ok s \<Longrightarrow> list_all asks_derived ws \<Longrightarrow> cache_ok (run_writes s ws)"
  unfolding run_writes_def by (induction ws arbitrary: s) (simp_all add: cache_ok_write)

lemma init_ok: "cache_ok init_cache" "no_ask_ok init_cache"
  by (simp_all add: cache_ok_def no_ask_ok_def init_cache_def)

lemma quoted_ticker:
  "\<not> is_falsy (tm_market_ticker tm) \<Longrightarrow>
   quoted (upsert_from_ticker s tm) (py_get (tm_market_ticker tm) [])
     = Some (py_get (tm_yes_ask tm) (100 - py_get (tm_no_bid tm) 0),
             100 - py_get (tm_yes_bid tm) 0)"
  unfolding quoted_def upsert_from_ticker_def Let_def notify_def
  by (auto split: option.splits prod.splits
      simp: compute_derived_def Let_def update_conv' py_get_def)

text \<open>
  C3, as the code has it. A ticker message that carries its own \<open>yes_ask\<close> is stored
  with that value, whatever \<open>no_bid\<close> is, so the four equations are not an invariant of
  every write. Starting from the empty cache, after any sequence of cache writes
  (\<open>upsert_from_ticker\<close>, \<open>apply_orderbook_delta\<close>, \<open>upsert_from_discovery\<close>,
  \<open>append_trade\<close>, \<open>update_status\<close>), \<open>no_ask = 100 - yes_bid\<close> holds for every
  MarketState, and all four equations hold for every MarketState when no ticker message
  of the sequence carried a \<open>yes_ask\<close> other than \<open>100 - no_bid\<close>. Each of the three
  writes of the claim preserves \<open>no_ask = 100 - yes_bid\<close> for every MarketState;
  \<open>apply_orderbook_delta\<close> and \<open>upsert_from_discovery\<close> preserve the four equations, and
  so does \<open>upsert_from_ticker\<close> for a message without \<open>yes_ask\<close> (or with the derived
  value). The entry that \<open>upsert_from_ticker\<close> writes has the message's \<open>yes_ask\<close> when
  there is one, \<open>100 - no_bid\<close> otherwise, and \<open>no_ask = 100 - yes_bid\<close>.
\<close>

theorem derived_fields_after_write:
  "no_ask_ok (run_writes init_cache ws)
   \<and> (list_all asks_derived ws \<longrightarrow> cache_ok (run_writes init_cache ws))
   \<and> (no_ask_ok s \<longrightarrow>
         no_ask_ok (upsert_from_ticker s tm) \<and> no_ask_ok (apply_orderbook_delta s om)
         \<and> no_ask_ok (upsert_from_discovery s md))
   \<and> (cache_ok s \<longrightarrow>
         cache_ok (apply_orderbook_delta s om) \<and> cache_ok (upsert_from_discovery s md)
         \<and> (derives_ask tm \<longrightarrow> cache_ok (upsert_from_ticker s tm)))
   \<and> (\<not> is_falsy (tm_market_ticker tm) \<longrightarrow>
         quoted (upsert_from_ticker s tm) (py_get (tm_market_ticker tm) [])
           = Some (py_get (tm_yes_ask tm) (100 - py_get (tm_no_bid tm) 0),
                   100 - py_get (tm_yes_bid tm) 0))"
  using no_ask_ok_run[OF init_ok(2)] cache_ok_run[OF init_ok(1)] no_ask_ok_ticker
    no_ask_ok_delta no_ask_ok_discovery cache_ok_delta cache_ok_discovery cache_ok_ticker
    quoted_ticker
  by blast

theorem derived_fields_after_write_witness:
  "list_all asks_derived writes_sample
   \<and> cache_ok (run_writes init_cache writes_sample)
   \<and> map_of (cache (run_writes init_cache writes_sample)) ''KXBTC'' \<noteq> None
   \<and> \<not> list_all asks_derived writes_with_ask
   \<and> no_ask_ok (run_writes init_cache writes_with_ask)
   \<and> \<not> cache_ok (run_writes init_cache writes_with_ask)
   \<and> cache_ok one_market \<and> no_ask_ok one_market
   \<and> cache_ok (apply_orderbook_delta one_market snapshot_msg)
   \<and> cache_ok (upsert_from_discovery one_market discovery_closed)
   \<and> derives_ask ticker_plain
   \<and> cache_ok (upsert_from_ticker one_market ticker_plain)
   \<and> no_ask_ok (upsert_from_ticker one_market ticker_with_ask)
   \<and> no_ask_ok (apply_orderbook_delta one_market snapshot_msg)
   \<and> no_ask_ok (upsert_from_discovery one_market discovery_closed)
   \<and> quoted (upsert_from_ticker one_market ticker_with_ask) ''KXBTC'' = Some (55, 60)"
proof -
  have a: "list_all asks_derived writes_sample" by code_simp
  have k: "map_of (cache (run_writes init_cache writes_sample)) ''KXBTC'' \<noteq> None"
    by code_simp
  have b: "\<not> list_all asks_derived writes_with_ask" by code_simp
  have nc: "\<not> cache_ok (run_writes init_cache writes_with_ask)" by code_simp
  have h: "cache_ok one_market" "no_ask_ok one_market" by code_simp+
  have p: "derives_ask ticker_plain" by code_simp
  have q: "\<not> is_falsy (tm_market_ticker ticker_with_ask)"
    by (simp add: ticker_with_ask_def is_falsy_def)
  have r: "py_get (tm_market_ticker ticker_with_ask) [] = ''KXBTC''"
    "py_get (tm_yes_ask ticker_with_ask) (100 - py_get (tm_no_bid ticker_with_ask) 0) = 55"
    "100 - py_get (tm_yes_bid ticker_with_ask) 0 = 60"
    by (simp_all add: ticker_with_ask_def py_get_def)
  note t1 = derived_fields_after_write[of writes_sample one_market ticker_plain snapshot_msg
      discovery_closed]
  note t2 = derived_fields_after_write[of writes_with_ask one_market ticker_with_ask
      snapshot_msg discovery_closed]
  from t1 a h p have c1: "cache_ok (run_writes init_cache writes_sample)
      \<and> cache_ok (apply_orderbook_delta one_market snapshot_msg)
      \<and> cache_ok (upsert_from_discovery one_market discovery_closed)
      \<and> cache_ok (upsert_from_ticker one_market ticker_plain)"
    by blast
  from t2 h q have c2: "no_ask_ok (run_writes init_cache writes_with_ask)
      \<and> no_ask_ok (upsert_from_ticker one_market ticker_with_ask)
      \<and> no_ask_ok (apply_orderbook_delta one_market snapshot_msg)
      \<and> no_ask_ok (upsert_from_discovery one_market discovery_closed)
      \<and> quoted (upsert_from_ticker one_market ticker_with_ask)
            (py_get (tm_market_ticker ticker_with_ask) [])
          = Some (py_get (tm_yes_ask ticker_with_ask)
                    (100 - py_get (tm_no_bid ticker_with_ask) 0),
                  100 - py_get (tm_yes_bid ticker_with_ask) 0)"
    by blast
  from c2 r have c3: "quoted (upsert_from_ticker one_market ticker_with_ask) ''KXBTC''
      = Some (55, 60)"
    by simp
  from a k b nc h p c1 c2 c3 show ?thesis by blast
qed

text \<open>
  C3 as stated fails: on the empty cache, the ticker message for \<open>KXBTC\<close> with
  \<open>yes_bid = 40\<close>, \<open>no_bid = 50\<close>, \<open>yes_ask = 55\<close> stores \<open>yes_ask = 55\<close>, which is not
  \<open>100 - no_bid = 50\<close>.
\<close>

theorem ticker_with_ask_breaks_derived_fields:
  "map_option derived_fields_ok
     (map_of (cache (upsert_from_ticker init_cache ticker_with_ask)) ''KXBTC'') = Some False
   \<and> quoted (upsert_from_ticker init_cache ticker_with_ask) ''KXBTC'' = Some (55, 60)
   \<and> map_option no_bid
       (map_of (cache (upsert_from_ticker init_cache ticker_with_ask)) ''KXBTC'') = Some 50"
  by code_simp

lemma update_fresh: "k \<notin> fst ` set d \<Longrightarrow> AList.update k v d = d @ [(k, v)]"
  by (induction d) auto

lemma fold_update_distinct:
  "distinct (map fst (d @ ls)) \<Longrightarrow> fold (\<lambda>(p, q) d. AList.update p q d) ls d = d @ ls"
proof (induction ls arbitrary: d)
  case Nil
  then show ?case by simp
next
  case (Cons a ls)
  obtain p q where a: "a = (p, q)" by (cases a)
  from Cons.prems have fresh: "p \<notin> fst ` set d" by (auto simp: a)
  from Cons.prems have "distinct (map fst ((d @ [(p, q)]) @ ls))" by (auto simp: a)
  from Cons.IH[OF this] show ?case by (simp add: a update_fresh[OF fresh])
qed

lemma snapshot_side_distinct: "distinct (map fst ls) \<Longrightarrow> snapshot_side ls = ls"
  using fold_update_distinct[of "[]" ls] by (simp add: snapshot_side_def)

lemma map_of_fold_update:
  "map_of (fold (\<lambda>(p, q) d. AList.update p q d) ls d) = map_of d ++ map_of (rev ls)"
proof (induction ls arbitrary: d)
  case Nil
  then show ?case by simp
next
  case (Cons a ls)
  obtain p q where a: "a = (p, q)" by (cases a)
  show ?case by (simp add: a Cons.IH update_conv' map_add_def fun_eq_iff split: option.splits)
qed

lemma map_of_snapshot_side: "map_of (snapshot_side ls) = map_of (rev ls)"
  by (simp add: snapshot_side_def map_of_fold_update)

lemma book_after_snapshot:
  assumes "om_market_ticker msg = Some t" and "t \<noteq> []" and "map_of (cache s) t = Some st"
    and "om_seq msg = Some 1 \<or> orderbook st = None"
  shows "book_of (apply_orderbook_delta s msg) t
           = Some \<lparr>bk_yes = snapshot_side (py_get (om_yes msg) []),
                   bk_no = snapshot_side (py_get (om_no msg) []),
                   bk_seq = om_seq msg\<rparr>"
  using assms
  by (auto simp: book_of_def apply_orderbook_delta_def is_falsy_def py_get_def Let_def
      notify_def update_conv' rederive_from_book_def split: option.splits)

text \<open>
  C6. For a market in the cache, a message with \<open>seq = 1\<close>, or any message when the
  market has no orderbook, replaces the stored book by the dict built from the message's
  levels and the message's \<open>seq\<close>; nothing of the prior book is left. The dict maps each
  price to the quantity of its last occurrence in the message, and when the prices of a
  side are distinct the side is the message's list verbatim. With no further delta the
  book stays as the snapshot left it.
\<close>

theorem snapshot_replaces_book:
  assumes "om_market_ticker msg = Some t" and "t \<noteq> []" and "map_of (cache s) t = Some st"
    and "om_seq msg = Some 1 \<or> orderbook st = None"
  shows "book_of (apply_orderbook_delta s msg) t
           = Some \<lparr>bk_yes = snapshot_side (py_get (om_yes msg) []),
                   bk_no = snapshot_side (py_get (om_no msg) []),
                   bk_seq = om_seq msg\<rparr>
         \<and> map_of (snapshot_side (py_get (om_yes msg) [])) = map_of (rev (py_get (om_yes msg) []))
         \<and> map_of (snapshot_side (py_get (om_no msg) [])) = map_of (rev (py_get (om_no msg) []))
         \<and> (distinct (map fst (py_get (om_yes msg) []))
              \<longrightarrow> snapshot_side (py_get (om_yes msg) []) = py_get (om_yes msg) [])
         \<and> (distinct (map fst (py_get (om_no msg) []))
              \<longrightarrow> snapshot_side (py_get (om_no msg) []) = py_get (om_no msg) [])
         \<and> book_of (apply_deltas s (msg # [])) t = book_of (apply_orderbook_delta s msg) t"
  using book_after_snapshot[OF assms] map_of_snapshot_side snapshot_side_distinct
  by (simp add: apply_deltas_def)

theorem snapshot_replaces_book_witness:
  "om_market_ticker snapshot_msg = Some ''KXBTC'' \<and> om_seq snapshot_msg = Some 1
   \<and> book_of booked_market ''KXBTC''
       = Some \<lparr>bk_yes = [(40, 0), (41, 3)], bk_no = [], bk_seq = Some 2\<rparr>
   \<and> book_of (apply_orderbook_delta booked_market snapshot_msg) ''KXBTC''
       = Some \<lparr>bk_yes = [(40, 10), (38, 5)], bk_no = [(55, 7)], bk_seq = Some 1\<rparr>
   \<and> book_of (apply_deltas booked_market (snapshot_msg # [])) ''KXBTC''
       = Some \<lparr>bk_yes = [(40, 10), (38, 5)], bk_no = [(55, 7)], bk_seq = Some 1\<rparr>"
proof -
  have t: "om_market_ticker snapshot_msg = Some ''KXBTC''" by (simp add: snapshot_msg_def)
  have n: "''KXBTC'' \<noteq> []" by simp
  have q: "om_seq snapshot_msg = Some 1 \<or> orderbook st = None" for st :: MarketState
    by (simp add: snapshot_msg_def)
  have prior: "book_of booked_market ''KXBTC''
       = Some \<lparr>bk_yes = [(40, 0), (41, 3)], bk_no = [], bk_seq = Some 2\<rparr>"
    by code_simp
  then obtain st where st: "map_of (cache booked_market) ''KXBTC'' = Some st"
    by (auto simp: book_of_def split: option.splits)
  have y: "py_get (om_yes snapshot_msg) [] = [(40, 10), (38, 5)]"
    and no: "py_get (om_no snapshot_msg) [] = [(55, 7)]"
    by (simp_all add: snapshot_msg_def py_get_def)
  have d: "distinct (map fst [(40::int, 10::int), (38, 5)])"
    "distinct (map fst [(55::int, 7::int)])"
    by simp_all
  from snapshot_replaces_book[OF t n st q] y no d t prior show ?thesis
    by (simp add: snapshot_msg_def)
qed

text \<open>
  C7 at the failing input. \<open>upsert_from_discovery\<close> inserts \<open>KXBTC\<close> into the empty cache,
  and later changes its status to \<open>closed\<close>, and the notification event stays unset
  both times; \<open>upsert_from_ticker\<close> and \<open>update_status\<close> set it.
\<close>

theorem discovery_write_leaves_event_unset:
  "map_of (cache init_cache) ''KXBTC'' = None
   \<and> update_notification init_cache = False
   \<and> map_option market_status
       (map_of (cache (upsert_from_discovery init_cache discovery_new)) ''KXBTC'') = Some ''open''
   \<and> update_notification (upsert_from_discovery init_cache discovery_new) = False
   \<and> map_option market_status
       (map_of (cache (upsert_from_discovery one_market discovery_closed)) ''KXBTC'')
         = Some ''closed''
   \<and> update_notification (upsert_from_discovery one_market discovery_closed) = False
   \<and> update_notification (upsert_from_ticker init_cache ticker_plain) = True
   \<and> update_notification (update_status one_market ''KXBTC'' ''closed'') = True"
  by code_simp

text \<open>
  C10. An orderbook message whose \<open>market_ticker\<close> is absent from the cache (or missing
  from the message) leaves the whole cache state as it was: no entry, no book, and the
  notification event as before.
\<close>

theorem delta_unknown_market_noop:
  "\<not> known_market s (om_market_ticker msg) \<Longrightarrow> apply_orderbook_delta s msg = s"
  by (auto simp: known_market_def apply_orderbook_delta_def is_falsy_def py_get_def Let_def
      split: option.splits)

theorem delta_unknown_market_noop_witness:
  "\<not> known_market one_market (om_market_ticker snapshot_unknown)
   \<and> apply_orderbook_delta one_market snapshot_unknown = one_market
   \<and> update_notification (apply_orderbook_delta one_market snapshot_unknown) = False
   \<and> map_of (cache (apply_orderbook_delta one_market snapshot_unknown)) ''KXETH'' = None"
proof -
  have h: "\<not> known_market one_market (om_market_ticker snapshot_unknown)"
    by code_simp
  have u: "update_notification one_market = False" by code_simp
  have v: "map_of (cache one_market) ''KXETH'' = None" by code_simp
  from delta_unknown_market_noop[OF h] h u v show ?thesis by simp
qed

section \<open>Permission layer\<close>

text \<open>
  C4. With a callback registered, \<open>submit\<close> awaits the callback on the intent and the
  active environment exactly when global trading is enabled, the keys of the active
  environment are loaded and the agent's mode is \<open>Auto\<close>; when a gate fails it returns
  without a call, and nothing in it raises.
\<close>

theorem submit_forwards_iff_gates:
  assumes "on_approved s = Some callback"
  shows "(submit s intent = Some (callback intent (active_environment s))) = gates_pass s intent
         \<and> (\<not> gates_pass s intent \<longrightarrow> submit s intent = None)"
  using assms
  by (auto simp: submit_def gates_pass_def py_get_def Let_def split: option.splits)

theorem submit_forwards_iff_gates_witness:
  "on_approved layer_open = Some Pair \<and> gates_pass layer_open intent1
   \<and> submit layer_open intent1 = Some (intent1, ''demo'')
   \<and> on_approved layer_semi = Some Pair \<and> \<not> gates_pass layer_semi intent1
   \<and> submit layer_semi intent1 = None"
proof -
  have a: "on_approved layer_open = Some Pair" "on_approved layer_semi = Some Pair"
    by (simp_all add: layer_semi_def layer_open_def set_agent_mode_def set_keys_loaded_def
        set_global_trading_def set_on_approved_def)
  have e: "active_environment layer_open = ''demo''"
    by (simp add: layer_open_def set_agent_mode_def set_keys_loaded_def
        set_global_trading_def set_on_approved_def init_permission_layer_def)
  have g: "gates_pass layer_open intent1" "\<not> gates_pass layer_semi intent1"
    by (simp_all add: gates_pass_def layer_semi_def layer_open_def set_agent_mode_def
        set_keys_loaded_def set_global_trading_def set_on_approved_def
        init_permission_layer_def intent1_def)
  from submit_forwards_iff_gates[OF a(1), of intent1]
    submit_forwards_iff_gates[OF a(2), of intent1] a e g
  show ?thesis by simp
qed

section \<open>WebSocket client: sequence gaps\<close>

lemma subscribe_one:
  "(ch, t) \<notin> subscriptions s \<Longrightarrow>
   subscriptions (subscribe s [ch] [t]) = insert (ch, t) (subscriptions s)
   \<and> sent (subscribe s [ch] [t])
       = (if ws_open s
          then sent s @ [\<lparr>cmd_id = msg_id s + 1, cmd = ''subscribe'', cmd_channels = [ch],
                           cmd_market_tickers = [t]\<rparr>]
          else sent s)"
  by (auto simp: subscribe_def send_subscribe_def next_id_def Let_def)

text \<open>
  C5. An \<open>orderbook_delta\<close> frame with sequence \<open>sq\<close> on ticker \<open>t\<close>. If a sequence is
  tracked for \<open>t\<close> and \<open>sq\<close> is not its successor, the frame is not queued, the tracked
  sequence is evicted, the subscription \<open>(orderbook_delta, t)\<close> is taken out of the
  desired set and a \<open>subscribe\<close> coroutine is scheduled; when that coroutine runs, the
  subscription is back in the set and, on an open socket, a subscribe command is sent.
  Otherwise the frame is queued with the environment tag and \<open>sq\<close> is the tracked
  sequence of \<open>t\<close>.
\<close>

theorem gap_detection:
  assumes "wm_type m = Some ''orderbook_delta''" and "wm_msg m = Some inner"
    and "in_market_ticker inner = Some t" and "t \<noteq> []" and "in_seq inner = Some sq"
  shows "(sequence_gap s t sq \<longrightarrow>
            queue (handle_raw s now (Some m)) = queue s
          \<and> map_of (ob_seq (handle_raw s now (Some m))) t = None
          \<and> (''orderbook_delta'', t) \<notin> subscriptions (handle_raw s now (Some m))
          \<and> tasks (handle_raw s now (Some m)) = tasks s @ [SubscribeTask [''orderbook_delta''] [t]]
          \<and> subscriptions (run_task (handle_raw s now (Some m))
                (SubscribeTask [''orderbook_delta''] [t]))
              = insert (''orderbook_delta'', t) (subscriptions s)
          \<and> sent (run_task (handle_raw s now (Some m)) (SubscribeTask [''orderbook_delta''] [t]))
              = (if ws_open s
                 then sent s @ [\<lparr>cmd_id = msg_id s + 1, cmd = ''subscribe'',
                                  cmd_channels = [''orderbook_delta''], cmd_market_tickers = [t]\<rparr>]
                 else sent s))
       \<and> (\<not> sequence_gap s t sq \<longrightarrow>
            queue (handle_raw s now (Some m)) = queue s @ [m\<lparr>wm_env := Some (ws_env s)\<rparr>]
          \<and> map_of (ob_seq (handle_raw s now (Some m))) t = Some sq
          \<and> subscriptions (handle_raw s now (Some m)) = subscriptions s
          \<and> tasks (handle_raw s now (Some m)) = tasks s)"
proof (cases "sequence_gap s t sq")
  case True
  then obtain prev where prev: "map_of (ob_seq s) t = Some prev" "sq \<noteq> prev + 1"
    by (auto simp: sequence_gap_def split: option.splits)
  define s' where "s' = handle_raw s now (Some m)"
  have eq: "s' = s\<lparr>ob_seq := AList.delete t (ob_seq s),
                   subscriptions := subscriptions s - {(''orderbook_delta'', t)},
                   tasks := tasks s @ [SubscribeTask [''orderbook_delta''] [t]]\<rparr>"
    using assms prev by (simp add: s'_def handle_raw_def py_get_def Let_def)
  have notin: "(''orderbook_delta'', t) \<notin> subscriptions s'" by (simp add: eq)
  from subscribe_one[OF notin] have
    "subscriptions (run_task s' (SubscribeTask [''orderbook_delta''] [t]))
       = insert (''orderbook_delta'', t) (subscriptions s)"
    "sent (run_task s' (SubscribeTask [''orderbook_delta''] [t]))
       = (if ws_open s
          then sent s @ [\<lparr>cmd_id = msg_id s + 1, cmd = ''subscribe'',
                           cmd_channels = [''orderbook_delta''], cmd_market_tickers = [t]\<rparr>]
          else sent s)"
    by (auto simp: eq)
  with True notin show ?thesis
    unfolding s'_def[symmetric] by (simp add: eq delete_conv')
next
  case False
  with assms show ?thesis
    by (auto simp: sequence_gap_def handle_raw_def py_get_def Let_def update_conv'
        split: option.splits)
qed

theorem gap_detection_witness:
  "sequence_gap ws_tracking ''KXBTC'' 13
   \<and> queue (handle_raw ws_tracking 0 (Some (book_frame ''KXBTC'' 13))) = []
   \<and> map_of (ob_seq (handle_raw ws_tracking 0 (Some (book_frame ''KXBTC'' 13)))) ''KXBTC'' = None
   \<and> (''orderbook_delta'', ''KXBTC'')
        \<notin> subscriptions (handle_raw ws_tracking 0 (Some (book_frame ''KXBTC'' 13)))
   \<and> subscriptions (run_task (handle_raw ws_tracking 0 (Some (book_frame ''KXBTC'' 13)))
        (SubscribeTask [''orderbook_delta''] [''KXBTC'']))
       = {(''orderbook_delta'', ''KXBTC'')}
   \<and> sent (run_task (handle_raw ws_tracking 0 (Some (book_frame ''KXBTC'' 13)))
        (SubscribeTask [''orderbook_delta''] [''KXBTC'']))
       = [\<lparr>cmd_id = 2, cmd = ''subscribe'', cmd_channels = [''orderbook_delta''],
           cmd_market_tickers = [''KXBTC'']\<rparr>]
   \<and> \<not> sequence_gap ws_tracking ''KXBTC'' 12
   \<and> queue (handle_raw ws_tracking 0 (Some (book_frame ''KXBTC'' 12)))
       = [(book_frame ''KXBTC'' 12)\<lparr>wm_env := Some ''demo''\<rparr>]
   \<and> map_of (ob_seq (handle_raw ws_tracking 0 (Some (book_frame ''KXBTC'' 12)))) ''KXBTC''
       = Some 12"
proof -
  have g: "sequence_gap ws_tracking ''KXBTC'' 13" "\<not> sequence_gap ws_tracking ''KXBTC'' 12"
    by (simp_all add: sequence_gap_def ws_tracking_def)
  have f: "wm_type (book_frame ''KXBTC'' sq) = Some ''orderbook_delta''"
    "wm_msg (book_frame ''KXBTC'' sq)
       = Some \<lparr>in_market_ticker = Some ''KXBTC'', in_seq = Some sq, in_payload = []\<rparr>"
    "in_market_ticker \<lparr>in_market_ticker = Some ''KXBTC'', in_seq = Some sq, in_payload = []\<rparr>
       = Some ''KXBTC''"
    "''KXBTC'' \<noteq> []"
    "in_seq \<lparr>in_market_ticker = Some ''KXBTC'', in_seq = Some sq, in_payload = []\<rparr> = Some sq"
    for sq
    by (simp_all add: book_frame_def)
  have w: "queue ws_tracking = []" "sent ws_tracking = []" "ws_open ws_tracking"
    "msg_id ws_tracking = 1" "ws_env ws_tracking = ''demo''"
    "subscriptions ws_tracking = {(''orderbook_delta'', ''KXBTC'')}"
    by (simp_all add: ws_tracking_def)
  from gap_detection[where s = ws_tracking and now = 0 and sq = 13, OF f]
    gap_detection[where s = ws_tracking and now = 0 and sq = 12, OF f] g w
  show ?thesis by simp
qed

section \<open>Execution engine: validation, idempotency, retries\<close>

lemma accepted_ids_append [simp]:
  "accepted_ids (a @ b) = accepted_ids a @ accepted_ids b"
  by (simp add: accepted_ids_def map_filter_def)

lemma accepted_ids_Nil [simp]: "accepted_ids [] = []"
  by (simp add: accepted_ids_def map_filter_def)

lemma accepted_ids_Cons:
  "accepted_ids (x # xs) = (case accepted_submit x of None \<Rightarrow> accepted_ids xs
     | Some c \<Rightarrow> c # accepted_ids xs)"
  by (simp add: accepted_ids_def map_filter_def split: option.splits)

lemma quiet_simps [simp]:
  "quiet [] = True"
  "quiet (a @ b) = (quiet a \<and> quiet b)"
  "quiet (x # xs) = (\<not> is_http x \<and> \<not> persists_order x \<and> quiet xs)"
  by (auto simp: quiet_def)

lemma after_Some:
  "after effs r = Some (x, tr, tape) \<longleftrightarrow> (\<exists>tr0. r = Some (x, tr0, tape) \<and> tr = effs @ tr0)"
  by (auto simp: after_def split: option.splits)

lemma after_Nil: "after [] r = r"
  by (auto simp: after_def split: option.splits)

lemma on_response_effects:
  "on_response status body attempt = (effs, a) \<Longrightarrow> accepted_ids effs = []"
  by (auto simp: on_response_def request_failed_def Let_def accepted_ids_Cons
      split: if_splits option.splits prod.splits)

lemma on_response_Return:
  "on_response status body attempt = (effs, Return b) \<Longrightarrow>
   (status = 200 \<or> status = 201) \<and> body = Some b"
  by (auto simp: on_response_def request_failed_def Let_def
      split: if_splits option.splits prod.splits)

lemma on_response_not_Return:
  "on_response status body attempt = (effs, a) \<Longrightarrow> (\<And>b. a \<noteq> Return b)
    \<Longrightarrow> \<not> (status = 200 \<or> status = 201) \<or> body = None"
  by (auto simp: on_response_def request_failed_def Let_def
      split: if_splits option.splits prod.splits)

lemma accepted_reply:
  "accepted_ids (Acquire w # Http method endpoint (Some body) (Reply status rb) # effs)
     = (case rb of
          None \<Rightarrow> []
        | Some b \<Rightarrow> if (status = 200 \<or> status = 201) \<and> order_of b \<noteq> None
                    then [body_client_order_id body] else []) @ accepted_ids effs"
  by (simp add: accepted_ids_Cons split: option.splits)

lemma request_accepted:
  "request c method endpoint (Some body) attempt tape = Some (res, tr, tape') \<Longrightarrow>
   accepted_ids tr
     = (case res of
          Inl exc \<Rightarrow> []
        | Inr b \<Rightarrow> if order_of b \<noteq> None then [body_client_order_id body] else [])"
proof (induction tape arbitrary: attempt tr)
  case Nil
  then show ?case by (auto simp: accepted_ids_Cons split: if_splits)
next
  case (Cons reply tape)
  show ?case
  proof (cases "is_configured c")
    case False
    with Cons.prems show ?thesis by (auto simp: accepted_ids_Cons)
  next
    case True
    show ?thesis
    proof (cases reply)
      case (Failure e)
      with True Cons.prems Cons.IH show ?thesis
        by (auto simp: accepted_ids_Cons RETRY_TABLE_timeout_def after_Some Let_def
            split: if_splits)
    next
      case (Reply status b0)
      obtain effs a where oa: "on_response status b0 attempt = (effs, a)"
        by (cases "on_response status b0 attempt")
      note e0 = on_response_effects[OF oa]
      let ?pre = "[Acquire (is_write method), Http method endpoint (Some body) (Reply status b0)]"
      show ?thesis
      proof (cases a)
        case (Return b)
        with on_response_Return oa have st: "status = 200 \<or> status = 201" "b0 = Some b"
          by blast+
        from True Cons.prems Reply oa Return have "res = Inr b" "tr = ?pre @ effs"
          by (simp_all add: Let_def)
        with e0 st show ?thesis by (simp add: accepted_reply)
      next
        case (Raise e)
        with on_response_not_Return[OF oa]
        have n: "\<not> (status = 200 \<or> status = 201) \<or> b0 = None" by blast
        from True Cons.prems Reply oa Raise have "res = Inl e" "tr = ?pre @ effs"
          by (simp_all add: Let_def)
        with e0 n show ?thesis by (auto simp: accepted_reply split: option.splits)
      next
        case SleepRetry
        with on_response_not_Return[OF oa]
        have n: "\<not> (status = 200 \<or> status = 201) \<or> b0 = None" by blast
        from True Cons.prems Reply oa SleepRetry obtain tr0 where
          r: "request c method endpoint (Some body) (attempt + 1) tape = Some (res, tr0, tape')"
          and t: "tr = (?pre @ effs) @ tr0"
          by (auto simp: Let_def after_Some)
        from Cons.IH[OF r] t e0 n show ?thesis
          by (auto simp: accepted_reply split: option.splits)
      next
        case Again
        with on_response_not_Return[OF oa]
        have n: "\<not> (status = 200 \<or> status = 201) \<or> b0 = None" by blast
        from True Cons.prems Reply oa Again obtain tr0 where
          r: "request c method endpoint (Some body) attempt tape = Some (res, tr0, tape')"
          and t: "tr = (?pre @ effs) @ tr0"
          by (auto simp: Let_def after_Some)
        from Cons.IH[OF r] t e0 n show ?thesis
          by (auto simp: accepted_reply split: option.splits)
      qed
    qed
  qed
qed

lemma on_order_success_Inr:
  "on_order_success e resp i env = Inr (e', tr) \<Longrightarrow>
   submitted_ids e' = submitted_ids e \<and> accepted_ids tr = [] \<and> order_of resp \<noteq> None"
  by (auto simp: on_order_success_def Let_def accepted_ids_Cons split: option.splits)

lemma on_order_success_Inl:
  "on_order_success e resp i env = Inl exc \<Longrightarrow> order_of resp = None"
  by (auto simp: on_order_success_def Let_def split: option.splits)

lemma on_order_failed_facts: "accepted_ids (on_order_failed e i env) = []"
  by (auto simp: on_order_failed_def accepted_ids_Cons)

lemma try_block_facts:
  assumes "try_block e i env tape = Some (res, tr, tape')"
  shows "case res of
           Inl exc \<Rightarrow> accepted_ids tr = []
         | Inr e' \<Rightarrow> accepted_ids tr = [client_order_id i]
                      \<and> submitted_ids e' = submitted_ids e"
proof -
  from assms obtain r0 tr0 where
    co: "create_order (rest e) (order_body_of i) tape = Some (r0, tr0, tape')"
    by (auto simp: try_block_def split: option.splits sum.splits prod.splits)
  have cid: "body_client_order_id (order_body_of i) = client_order_id i"
    by (simp add: order_body_of_def)
  from co have s0: "accepted_ids tr0
      = (case r0 of Inl exc \<Rightarrow> []
         | Inr b \<Rightarrow> if order_of b \<noteq> None then [client_order_id i] else [])"
    using request_accepted[of "rest e" "''POST''" "''/portfolio/orders''" "order_body_of i"
        0 tape r0 tr0 tape']
    by (simp add: create_order_def post_def cid split: sum.splits)
  show ?thesis
  proof (cases r0)
    case (Inl exc)
    with assms co s0 show ?thesis by (auto simp: try_block_def)
  next
    case (Inr resp)
    show ?thesis
    proof (cases "on_order_success e resp i env")
      case (Inl exc)
      from on_order_success_Inl[OF Inl] s0 Inr have "accepted_ids tr0 = []" by simp
      with assms co Inr Inl show ?thesis by (auto simp: try_block_def)
    next
      case Inr2: (Inr p)
      obtain e1 tr1 where p: "p = (e1, tr1)" by (cases p)
      from on_order_success_Inr[of e resp i env e1 tr1] Inr2 p
      have f: "submitted_ids e1 = submitted_ids e" "accepted_ids tr1 = []"
        "order_of resp \<noteq> None"
        by simp_all
      with s0 Inr have "accepted_ids tr0 = [client_order_id i]" by simp
      with assms co Inr Inr2 p f show ?thesis by (auto simp: try_block_def)
    qed
  qed
qed

lemma submit_attempts_facts:
  "submit_attempts e i env atts tape = Some (e', tr, tape') \<Longrightarrow>
   submitted_ids e' = submitted_ids e
   \<and> (accepted_ids tr = [] \<or> accepted_ids tr = [client_order_id i])"
proof (induction atts arbitrary: tape tr)
  case Nil
  then show ?case by (auto simp: accepted_ids_Cons on_order_failed_facts)
next
  case (Cons attempt later)
  from Cons.prems obtain res tr0 tape0 where
    tb: "try_block e i env tape = Some (res, tr0, tape0)"
    by (auto split: option.splits)
  note f = try_block_facts[OF tb]
  show ?case
  proof (cases res)
    case (Inr e1)
    with Cons.prems tb f show ?thesis by auto
  next
    case (Inl exc)
    with f have s0: "accepted_ids tr0 = []" by simp
    show ?thesis
    proof (cases "exc = PermissionError")
      case True
      with Cons.prems tb Inl s0 show ?thesis by (auto simp: accepted_ids_Cons)
    next
      case False
      with Cons.prems tb Inl obtain tr2 where
        r: "submit_attempts e i env later tape0 = Some (e', tr2, tape')"
        and t: "tr = (tr0 @ [Log (SubmissionFailed (attempt + 1) exc),
                              Sleep (100 * 2 ^ attempt)]) @ tr2"
        by (auto simp: after_Some Let_def)
      from Cons.IH[OF r] s0 t show ?thesis by (auto simp: accepted_ids_Cons)
    qed
  qed
qed

lemma validate_logs: "accepted_ids (snd (validate i)) = [] \<and> quiet (snd (validate i))"
  by (simp add: validate_def accepted_ids_Cons)

lemma validate_cases:
  "validate i = (True, []) \<or> (\<exists>r. validate i = (False, [Log r]))"
  by (simp add: validate_def)

lemma execute_duplicate:
  assumes "client_order_id j \<in> submitted_ids e"
  shows "summary (execute e j env tape) = Some (e, True, tape)"
proof -
  from validate_cases[of j] show ?thesis
  proof
    assume "validate j = (True, [])"
    with assms show ?thesis by (simp add: execute_def summary_def)
  next
    assume "\<exists>r. validate j = (False, [Log r])"
    then obtain r where "validate j = (False, [Log r])" ..
    then show ?thesis by (simp add: execute_def summary_def)
  qed
qed

lemma execute_invalid:
  assumes "execute e i env tape = Some (e', tr, tape')" and "validate i = (False, [Log r])"
  shows "e' = e" and "tr = [Log r]"
  using assms by (simp_all add: execute_def)

lemma execute_known:
  assumes "execute e i env tape = Some (e', tr, tape')" and "validate i = (True, [])"
    and "client_order_id i \<in> submitted_ids e"
  shows "e' = e" and "tr = [Log (DuplicateClientOrderId (client_order_id i))]"
  using assms by (simp_all add: execute_def)

lemma execute_fresh:
  assumes "execute e i env tape = Some (e', tr, tape')" and "validate i = (True, [])"
    and "client_order_id i \<notin> submitted_ids e"
  shows "submit_with_retry (e\<lparr>submitted_ids := insert (client_order_id i) (submitted_ids e)\<rparr>)
           i env tape = Some (e', tr, tape')"
  using assms by (simp add: execute_def after_Nil)

lemma submit_with_retry_facts:
  assumes "submit_with_retry (e\<lparr>submitted_ids := insert (client_order_id i) (submitted_ids e)\<rparr>)
             i env tape = Some (e', tr, tape')"
    and fresh: "client_order_id i \<notin> submitted_ids e"
  shows "submitted_ids e \<subseteq> submitted_ids e'
         \<and> set (accepted_ids tr) \<subseteq> submitted_ids e' - submitted_ids e
         \<and> distinct (accepted_ids tr)
         \<and> client_order_id i \<in> submitted_ids e'"
proof -
  from assms(1) have s: "submit_attempts
      (e\<lparr>submitted_ids := insert (client_order_id i) (submitted_ids e)\<rparr>)
      i env [0, 1, 2, 3, 4] tape = Some (e', tr, tape')"
    unfolding submit_with_retry_def .
  from submit_attempts_facts[OF s]
  have a: "submitted_ids e' = insert (client_order_id i) (submitted_ids e)"
    and b: "accepted_ids tr = [] \<or> accepted_ids tr = [client_order_id i]"
    by simp_all
  from b show ?thesis
  proof
    assume "accepted_ids tr = []"
    with a show ?thesis by auto
  next
    assume "accepted_ids tr = [client_order_id i]"
    with a fresh show ?thesis by auto
  qed
qed

lemma execute_facts:
  assumes "execute e i env tape = Some (e', tr, tape')"
  shows "submitted_ids e \<subseteq> submitted_ids e'
         \<and> set (accepted_ids tr) \<subseteq> submitted_ids e' - submitted_ids e
         \<and> distinct (accepted_ids tr)
         \<and> (fst (validate i) \<longrightarrow> client_order_id i \<in> submitted_ids e')"
proof -
  from validate_cases[of i] show ?thesis
  proof
    assume "\<exists>r. validate i = (False, [Log r])"
    then obtain r where v: "validate i = (False, [Log r])" ..
    have f: "\<not> fst (validate i)" by (simp add: v)
    have "accepted_ids [Log r] = []" by (simp add: accepted_ids_Cons)
    with execute_invalid[OF assms v] f show ?thesis by simp
  next
    assume v: "validate i = (True, [])"
    show ?thesis
    proof (cases "client_order_id i \<in> submitted_ids e")
      case True
      have "accepted_ids [Log (DuplicateClientOrderId (client_order_id i))] = []"
        by (simp add: accepted_ids_Cons)
      with execute_known[OF assms v True] True show ?thesis by simp
    next
      case False
      from submit_with_retry_facts[OF execute_fresh[OF assms v False] False]
      show ?thesis by blast
    qed
  qed
qed

lemma fold_submitted_mono:
  "(\<And>x a. submitted_ids a \<subseteq> submitted_ids (f x a)) \<Longrightarrow>
   submitted_ids a \<subseteq> submitted_ids (fold f xs a)"
proof (induction xs arbitrary: a)
  case Nil
  then show ?case by simp
next
  case (Cons x xs)
  from Cons.prems have "submitted_ids a \<subseteq> submitted_ids (f x a)" by blast
  moreover from Cons.IH[OF Cons.prems] have "submitted_ids (f x a) \<subseteq> submitted_ids (fold f xs (f x a))" .
  ultimately show ?case by auto
qed

lemma load_state_facts:
  "load_state_from_db e rows ps = (e', tr) \<Longrightarrow>
   submitted_ids e \<subseteq> submitted_ids e' \<and> accepted_ids tr = []"
proof -
  assume a: "load_state_from_db e rows ps = (e', tr)"
  let ?f = "\<lambda>row e'.
                   let oid = py_get (od_order_id row) [];
                       cid = py_get (od_client_order_id row) []
                   in e'\<lparr>open_orders := AList.update oid row (open_orders e'),
                         submitted_ids := insert cid (submitted_ids e')\<rparr>"
  let ?g = "\<lambda>pos e'.
                   let ticker = py_get (pos_market_ticker pos) []
                   in e'\<lparr>positions := AList.update ticker pos (positions e')\<rparr>"
  have 1: "submitted_ids e \<subseteq> submitted_ids (fold ?f rows e)"
    by (rule fold_submitted_mono) (auto simp: Let_def)
  have 2: "submitted_ids (fold ?f rows e) \<subseteq> submitted_ids (fold ?g ps (fold ?f rows e))"
    by (rule fold_submitted_mono) (auto simp: Let_def)
  from a 1 2 show ?thesis
    by (auto simp: load_state_from_db_def Let_def accepted_ids_Cons split: if_splits)
qed

lemma handle_fill_facts:
  "handle_fill e msg env = (e', tr) \<Longrightarrow>
   submitted_ids e' = submitted_ids e \<and> accepted_ids tr = []"
  by (auto simp: handle_fill_def Let_def accepted_ids_Cons split: option.splits if_splits)

lemma handle_order_update_facts:
  "handle_order_update e msg env = (e', tr) \<Longrightarrow>
   submitted_ids e' = submitted_ids e \<and> accepted_ids tr = []"
  by (auto simp: handle_order_update_def Let_def accepted_ids_Cons split: if_splits)

lemma run_call_facts:
  assumes "run_call e c tape = Some (e', tr, tape')"
  shows "submitted_ids e \<subseteq> submitted_ids e'
         \<and> set (accepted_ids tr) \<subseteq> submitted_ids e' - submitted_ids e
         \<and> distinct (accepted_ids tr)"
proof (cases c)
  case (Execute i env)
  with assms execute_facts[of e i env tape e' tr tape'] show ?thesis by simp
next
  case (HandleFill msg env)
  with assms handle_fill_facts[of e msg env] show ?thesis by (auto split: prod.splits)
next
  case (HandleOrderUpdate msg env)
  with assms handle_order_update_facts[of e msg env] show ?thesis by (auto split: prod.splits)
next
  case (LoadStateFromDb rows ps)
  with assms load_state_facts[of e rows ps] show ?thesis by (auto split: prod.splits)
qed

lemma run_calls_facts:
  "run_calls e cs tape = Some (e', tr, tape') \<Longrightarrow>
   submitted_ids e \<subseteq> submitted_ids e'
   \<and> set (accepted_ids tr) \<subseteq> submitted_ids e' - submitted_ids e
   \<and> distinct (accepted_ids tr)"
proof (induction cs arbitrary: e tape tr)
  case Nil
  then show ?case by simp
next
  case (Cons c cs)
  from Cons.prems obtain e1 tr1 tape1 tr2 where
    c1: "run_call e c tape = Some (e1, tr1, tape1)"
    and c2: "run_calls e1 cs tape1 = Some (e', tr2, tape')"
    and t: "tr = tr1 @ tr2"
    by (auto simp: after_Some split: option.splits)
  from run_call_facts[OF c1] Cons.IH[OF c2] t show ?case by auto
qed

lemma failed_broadcast_recorded:
  assumes "execute e i env tape = Some (e1, tr1, tape1)"
    and "Broadcast ev \<in> set tr1"
  shows "client_order_id i \<in> submitted_ids e1"
proof -
  from validate_cases[of i] show ?thesis
  proof
    assume "\<exists>r. validate i = (False, [Log r])"
    then obtain r where v: "validate i = (False, [Log r])" ..
    with assms(1) have "tr1 = [Log r]" by (simp add: execute_def)
    with assms(2) show ?thesis by simp
  next
    assume "validate i = (True, [])"
    then have "fst (validate i)" by simp
    with execute_facts[OF assms(1)] show ?thesis by simp
  qed
qed

text \<open>
  C2, as the code has it. Once a validated intent has gone through \<open>execute\<close>, its
  \<open>client_order_id\<close> is recorded, and \<open>execute\<close> on any intent with the same
  \<open>client_order_id\<close> returns with the state and the replies of the exchange untouched and
  a trace with no HTTP call and no order row for the database. Over any sequence of calls
  on an engine, the \<open>client_order_id\<close>s of the submits that the engine accepts (a POST
  answered 200 or 201 with a body that decodes and holds an order, on which
  \<open>_on_order_success\<close> goes through) are pairwise distinct.
\<close>

theorem duplicate_not_resubmitted:
  assumes "fst (validate i)" and "execute e i env tape = Some (e1, tr1, tape1)"
    and "client_order_id j = client_order_id i"
  shows "client_order_id i \<in> submitted_ids e1
         \<and> summary (execute e1 j env' tape') = Some (e1, True, tape')
         \<and> (run_calls e0 cs tape0 = Some (e2, tr2, tape2) \<longrightarrow> distinct (accepted_ids tr2))"
proof -
  from execute_facts[OF assms(2)] assms(1) have r: "client_order_id i \<in> submitted_ids e1"
    by simp
  with assms(3) have "client_order_id j \<in> submitted_ids e1" by simp
  from execute_duplicate[OF this] r run_calls_facts[of e0 cs tape0 e2 tr2 tape2]
  show ?thesis by blast
qed

text \<open>
  C9. When \<open>execute\<close> has used up its attempts and broadcast \<open>order_failed\<close>, the
  \<open>client_order_id\<close> is in the idempotency set; whatever calls the process makes on the
  engine afterwards, it stays there, and a later \<open>execute\<close> with the same
  \<open>client_order_id\<close> returns without an HTTP call, leaving the state and the replies as
  they were.
\<close>

theorem failed_intent_never_resubmitted:
  assumes "execute e i env tape = Some (e1, tr1, tape1)"
    and "Broadcast (OrderFailed (client_order_id i) (ti_market_ticker i) env) \<in> set tr1"
    and "run_calls e1 cs tape1 = Some (e2, tr2, tape2)"
    and "client_order_id j = client_order_id i"
  shows "client_order_id i \<in> submitted_ids e1
         \<and> client_order_id i \<in> submitted_ids e2
         \<and> summary (execute e2 j env' tape') = Some (e2, True, tape')"
proof -
  from failed_broadcast_recorded[OF assms(1,2)] have r: "client_order_id i \<in> submitted_ids e1" .
  with run_calls_facts[OF assms(3)] have r2: "client_order_id i \<in> submitted_ids e2" by blast
  with assms(4) have "client_order_id j \<in> submitted_ids e2" by simp
  from execute_duplicate[OF this] r r2 show ?thesis by blast
qed

text \<open>
  C1 at the failing input. The exchange answers 401 to every POST. \<open>_request\<close> finds 401
  in \<open>_NO_RETRY_CODES\<close> first and leaves through \<open>raise_for_status\<close> with a
  \<open>ClientResponseError\<close>; the branch that raises \<open>PermissionError\<close> is never reached. The
  engine's \<open>except PermissionError\<close> does not match, so it makes all five attempts, sleeps
  after each, and broadcasts \<open>order_failed\<close>.
\<close>

theorem unauthorized_is_retried:
  "attempt_counts (execute engine_demo intent1 ''demo'' unauthorized_replies)
     = Some (5, 5, False, False, True, [])
   \<and> map_option fst (create_order rest_demo (order_body_of intent1) [Reply 401 (Some error_body)])
     = Some (Inl (ClientResponseError 401))"
  by code_simp

text \<open>
  C8. With price 1 or 99 validation passes exactly when the other fields are valid, and
  a valid intent with a fresh \<open>client_order_id\<close> on a configured client goes on to the
  POST. With price 0 or 100 \<open>execute\<close> logs the invalid price and returns: the state (and
  so the idempotency set) and the replies of the exchange are untouched, and nothing is
  raised.
\<close>

theorem price_boundaries:
  "(price i = 1 \<or> price i = 99 \<longrightarrow> fst (validate i) = other_fields_valid i)
   \<and> (price i = 1 \<or> price i = 99 \<longrightarrow> other_fields_valid i
        \<longrightarrow> client_order_id i \<notin> submitted_ids e \<longrightarrow> is_configured (rest e)
        \<longrightarrow> on_order_success
              (e\<lparr>submitted_ids := insert (client_order_id i) (submitted_ids e)\<rparr>)
              body i env = Inr (e', tr')
        \<longrightarrow> execute e i env (Reply 201 (Some body) # tape)
            = Some (e',
                    [Acquire True,
                     Http ''POST'' ''/portfolio/orders'' (Some (order_body_of i))
                       (Reply 201 (Some body))] @ tr',
                    tape))
   \<and> (price i = 0 \<or> price i = 100
        \<longrightarrow> execute e i env tape = Some (e, [Log (InvalidPrice (price i))], tape))"
proof (intro conjI impI)
  assume "price i = 1 \<or> price i = 99"
  then show "fst (validate i) = other_fields_valid i"
    by (auto simp: validate_def other_fields_valid_def)
next
  let ?e = "e\<lparr>submitted_ids := insert (client_order_id i) (submitted_ids e)\<rparr>"
  assume p: "price i = 1 \<or> price i = 99" and o: "other_fields_valid i"
    and f: "client_order_id i \<notin> submitted_ids e" and c: "is_configured (rest e)"
    and s: "on_order_success ?e body i env = Inr (e', tr')"
  from p o have v: "validate i = (True, [])"
    by (auto simp: validate_def other_fields_valid_def)
  have r: "create_order (rest ?e) (order_body_of i) (Reply 201 (Some body) # tape)
        = Some (Inr body,
                [Acquire True,
                 Http ''POST'' ''/portfolio/orders'' (Some (order_body_of i))
                   (Reply 201 (Some body))],
                tape)"
    using c by (simp add: create_order_def post_def on_response_def is_write_def)
  have tb: "try_block ?e i env (Reply 201 (Some body) # tape)
        = Some (Inr e',
                [Acquire True,
                 Http ''POST'' ''/portfolio/orders'' (Some (order_body_of i))
                   (Reply 201 (Some body))] @ tr',
                tape)"
    unfolding try_block_def r using s by simp
  have "execute e i env (Reply 201 (Some body) # tape)
          = submit_with_retry ?e i env (Reply 201 (Some body) # tape)"
    using v f by (simp add: execute_def after_Nil)
  also have "\<dots> = Some (e',
                    [Acquire True,
                     Http ''POST'' ''/portfolio/orders'' (Some (order_body_of i))
                       (Reply 201 (Some body))] @ tr',
                    tape)"
    unfolding submit_with_retry_def submit_attempts.simps tb by simp
  finally show "execute e i env (Reply 201 (Some body) # tape)
          = Some (e',
                    [Acquire True,
                     Http ''POST'' ''/portfolio/orders'' (Some (order_body_of i))
                       (Reply 201 (Some body))] @ tr',
                    tape)" .
next
  assume "price i = 0 \<or> price i = 100"
  then have "validate i = (False, [Log (InvalidPrice (price i))])"
    by (auto simp: validate_def)
  then show "execute e i env tape = Some (e, [Log (InvalidPrice (price i))], tape)"
    by (simp add: execute_def)
qed

theorem price_boundaries_witness:
  "fst (validate (intent1\<lparr>price := 1\<rparr>)) \<and> fst (validate (intent1\<lparr>price := 99\<rparr>))
   \<and> map_option fst (execute engine_demo (intent1\<lparr>price := 1\<rparr>) ''demo''
         (Reply 201 (Some accepted_body) # []))
       = Some engine_after_accept
   \<and> map_option (\<lambda>(e, tr, tape). accepted_ids tr)
         (execute engine_demo (intent1\<lparr>price := 99\<rparr>) ''demo''
            (Reply 201 (Some accepted_body) # []))
       = Some [''cid-1'']
   \<and> execute engine_demo (intent1\<lparr>price := 0\<rparr>) ''demo'' [Reply 201 (Some accepted_body)]
       = Some (engine_demo, [Log (InvalidPrice 0)], [Reply 201 (Some accepted_body)])
   \<and> execute engine_demo (intent1\<lparr>price := 100\<rparr>) ''demo'' [Reply 201 (Some accepted_body)]
       = Some (engine_demo, [Log (InvalidPrice 100)], [Reply 201 (Some accepted_body)])"
proof -
  have o: "other_fields_valid (intent1\<lparr>price := p\<rparr>)" for p
    by (simp add: other_fields_valid_def intent1_def)
  have f: "client_order_id (intent1\<lparr>price := p\<rparr>) \<notin> submitted_ids engine_demo" for p
    by (simp add: engine_demo_def init_engine_def)
  have c: "is_configured (rest engine_demo)"
    by (simp add: engine_demo_def init_engine_def rest_demo_def is_configured_def is_falsy_def)
  obtain e1 tr1 where s1: "on_order_success
      (engine_demo\<lparr>submitted_ids := insert (client_order_id (intent1\<lparr>price := 1\<rparr>))
         (submitted_ids engine_demo)\<rparr>) accepted_body (intent1\<lparr>price := 1\<rparr>) ''demo''
        = Inr (e1, tr1)" and e1: "e1 = engine_after_accept"
  proof -
    have "map_sum id fst (on_order_success
      (engine_demo\<lparr>submitted_ids := insert (client_order_id (intent1\<lparr>price := 1\<rparr>))
         (submitted_ids engine_demo)\<rparr>) accepted_body (intent1\<lparr>price := 1\<rparr>) ''demo'')
        = Inr engine_after_accept"
      by code_simp
    then show ?thesis using that by (auto simp: map_sum_def split: sum.splits)
  qed
  obtain e2 tr2 where s2: "on_order_success
      (engine_demo\<lparr>submitted_ids := insert (client_order_id (intent1\<lparr>price := 99\<rparr>))
         (submitted_ids engine_demo)\<rparr>) accepted_body (intent1\<lparr>price := 99\<rparr>) ''demo''
        = Inr (e2, tr2)" and a2: "accepted_ids tr2 = []"
  proof -
    have "map_sum id (\<lambda>(e, tr). accepted_ids tr) (on_order_success
      (engine_demo\<lparr>submitted_ids := insert (client_order_id (intent1\<lparr>price := 99\<rparr>))
         (submitted_ids engine_demo)\<rparr>) accepted_body (intent1\<lparr>price := 99\<rparr>) ''demo'')
        = Inr []"
      by code_simp
    then show ?thesis using that by (auto simp: map_sum_def split: sum.splits)
  qed
  have b: "body_client_order_id (order_body_of (intent1\<lparr>price := 99\<rparr>)) = ''cid-1''"
    by (simp add: order_body_of_def intent1_def)
  have u: "order_of accepted_body \<noteq> None" by code_simp
  note t1 = price_boundaries[of "intent1\<lparr>price := 1\<rparr>" engine_demo accepted_body "''demo''"
      e1 tr1 "[]"]
  note t99 = price_boundaries[of "intent1\<lparr>price := 99\<rparr>" engine_demo accepted_body "''demo''"
      e2 tr2 "[]"]
  note t0 = price_boundaries[of "intent1\<lparr>price := 0\<rparr>" engine_demo accepted_body "''demo''"
      e1 tr1 "[Reply 201 (Some accepted_body)]"]
  note t100 = price_boundaries[of "intent1\<lparr>price := 100\<rparr>" engine_demo accepted_body "''demo''"
      e1 tr1 "[Reply 201 (Some accepted_body)]"]
  have v1: "fst (validate (intent1\<lparr>price := 1\<rparr>))" using t1 o by simp
  have v99: "fst (validate (intent1\<lparr>price := 99\<rparr>))" using t99 o by simp
  have x1: "map_option fst (execute engine_demo (intent1\<lparr>price := 1\<rparr>) ''demo''
         (Reply 201 (Some accepted_body) # [])) = Some engine_after_accept"
    using t1 o f c s1 e1 by simp
  have x99: "map_option (\<lambda>(e, tr, tape). accepted_ids tr)
         (execute engine_demo (intent1\<lparr>price := 99\<rparr>) ''demo''
            (Reply 201 (Some accepted_body) # []))
       = Some [''cid-1'']"
    using t99 o f c s2 a2 b u by (simp add: accepted_ids_Cons)
  have x0: "execute engine_demo (intent1\<lparr>price := 0\<rparr>) ''demo'' [Reply 201 (Some accepted_body)]
       = Some (engine_demo, [Log (InvalidPrice 0)], [Reply 201 (Some accepted_body)])"
    using t0 by simp
  have x100: "execute engine_demo (intent1\<lparr>price := 100\<rparr>) ''demo''
        [Reply 201 (Some accepted_body)]
       = Some (engine_demo, [Log (InvalidPrice 100)], [Reply 201 (Some accepted_body)])"
    using t100 by simp
  from v1 v99 x1 x99 x0 x100 show ?thesis by blast
qed

theorem duplicate_not_resubmitted_witness:
  "fst (validate intent1)
   \<and> map_option fst (execute engine_demo intent1 ''demo'' [Reply 201 (Some accepted_body)])
       = Some engine_after_accept
   \<and> client_order_id intent1 \<in> submitted_ids engine_after_accept
   \<and> summary (execute engine_after_accept intent1 ''demo'' [Reply 201 (Some accepted_body)])
       = Some (engine_after_accept, True, [Reply 201 (Some accepted_body)])
   \<and> map_option (\<lambda>(e, tr, tape). (accepted_ids tr, tape))
       (run_calls engine_demo [Execute intent1 ''demo'', Execute intent1 ''demo'']
          [Reply 201 (Some accepted_body), Reply 201 (Some accepted_body)])
       = Some ([''cid-1''], [Reply 201 (Some accepted_body)])
   \<and> map_option (\<lambda>(e, tr, tape). distinct (accepted_ids tr))
       (run_calls engine_demo [Execute intent1 ''demo'', Execute intent1 ''demo'']
          unusable_then_accepted)
       = Some True"
proof -
  have v: "fst (validate intent1)" by code_simp
  have first: "map_option fst (execute engine_demo intent1 ''demo'' [Reply 201 (Some accepted_body)])
       = Some engine_after_accept"
    by code_simp
  then obtain tr1 tape1 where
    x: "execute engine_demo intent1 ''demo'' [Reply 201 (Some accepted_body)]
          = Some (engine_after_accept, tr1, tape1)"
    by auto
  have run: "map_option (\<lambda>(e, tr, tape). (accepted_ids tr, tape))
       (run_calls engine_demo [Execute intent1 ''demo'', Execute intent1 ''demo'']
          [Reply 201 (Some accepted_body), Reply 201 (Some accepted_body)])
       = Some ([''cid-1''], [Reply 201 (Some accepted_body)])"
    by code_simp
  have "map_option (\<lambda>r. True)
       (run_calls engine_demo [Execute intent1 ''demo'', Execute intent1 ''demo'']
          unusable_then_accepted) = Some True"
    by code_simp
  then obtain e2 tr2 tape2 where
    y: "run_calls engine_demo [Execute intent1 ''demo'', Execute intent1 ''demo'']
          unusable_then_accepted = Some (e2, tr2, tape2)"
    by auto
  note t = duplicate_not_resubmitted[OF v x refl, of "''demo''" "[Reply 201 (Some accepted_body)]"
      engine_demo "[Execute intent1 ''demo'', Execute intent1 ''demo'']" unusable_then_accepted
      e2 tr2 tape2]
  from t y have d: "distinct (accepted_ids tr2)" by blast
  from t v first run y d show ?thesis by simp
qed

theorem failed_intent_never_resubmitted_witness:
  "map_option (\<lambda>(e, tr, tape).
       (e, Broadcast (OrderFailed ''cid-1'' ''KXBTC'' ''demo'') \<in> set tr,
        length (filter is_http tr), tape))
     (execute engine_demo intent1 ''demo'' rejected_replies)
     = Some (engine_after_failure, True, 5, [])
   \<and> map_option fst (run_calls engine_after_failure [HandleFill fill_msg1 ''demo''] [])
     = Some engine_after_failure
   \<and> client_order_id intent1 \<in> submitted_ids engine_after_failure
   \<and> summary (execute engine_after_failure intent1 ''demo'' [Reply 201 (Some accepted_body)])
     = Some (engine_after_failure, True, [Reply 201 (Some accepted_body)])"
proof -
  have first: "map_option (\<lambda>(e, tr, tape).
       (e, Broadcast (OrderFailed ''cid-1'' ''KXBTC'' ''demo'') \<in> set tr,
        length (filter is_http tr), tape))
     (execute engine_demo intent1 ''demo'' rejected_replies)
     = Some (engine_after_failure, True, 5, [])"
    by code_simp
  then obtain tr1 where
    x: "execute engine_demo intent1 ''demo'' rejected_replies = Some (engine_after_failure, tr1, [])"
    and b: "Broadcast (OrderFailed ''cid-1'' ''KXBTC'' ''demo'') \<in> set tr1"
    by auto
  have i: "client_order_id intent1 = ''cid-1''" "ti_market_ticker intent1 = ''KXBTC''"
    by (simp_all add: intent1_def)
  from b i have b': "Broadcast (OrderFailed (client_order_id intent1) (ti_market_ticker intent1)
      ''demo'') \<in> set tr1"
    by simp
  have later: "map_option fst (run_calls engine_after_failure [HandleFill fill_msg1 ''demo''] [])
     = Some engine_after_failure"
    by code_simp
  then obtain tr2 tape2 where
    y: "run_calls engine_after_failure [HandleFill fill_msg1 ''demo''] []
          = Some (engine_after_failure, tr2, tape2)"
    by auto
  from failed_intent_never_resubmitted[OF x b' y refl, of "''demo''" "[Reply 201 (Some accepted_body)]"]
    first later
  show ?thesis by simp
qed


text \<open>
  C2 as stated fails for the POSTs of one call. The exchange answers 201 with
  \<open>"order": null\<close>, then 201 with the order. \<open>_on_order_success\<close> raises inside the \<open>try\<close>
  on the first answer, \<open>except Exception\<close> sleeps, and the loop POSTs the same body again:
  two POSTs answered 201 carry the one \<open>client_order_id\<close>, and the engine accepts and
  persists the order once.
\<close>

theorem answered_twice_with_one_id:
  "map_option (\<lambda>(e, tr, tape).
       (answered_ids tr, distinct (answered_ids tr), accepted_ids tr,
        length (filter persists_order tr), tape))
     (execute engine_demo intent1 ''demo'' unusable_then_accepted)
     = Some ([''cid-1'', ''cid-1''], False, [''cid-1''], 1, [])"
  by code_simp

end
